theory Spec2Isabelle
  imports Complex_Main "HOL-Library.Char_ord" "HOL-Library.List_Lexorder" "HOL-Library.Product_Lexorder"
    "HOL-Library.Multiset"
begin

section \<open>The JavaScript values the routes compute with\<close>

text \<open>
  The routes of \<^verbatim>\<open>routes/students.js\<close> and \<^verbatim>\<open>routes/schools.js\<close> read query-string
  values (strings, or \<^verbatim>\<open>undefined\<close> when the key is absent), coerce them with \<^verbatim>\<open>-\<close>,
  \<^verbatim>\<open>*\<close>, \<^verbatim>\<open>/\<close>, \<^verbatim>\<open>parseInt\<close> and \<^verbatim>\<open>Math.ceil\<close>, and answer with JSON.
  Numbers are the finite values, \<^verbatim>\<open>NaN\<close> and the two infinities. Finite values are
  exact rationals here: the model agrees with IEEE doubles on integers of magnitude below
  \<open>2^53\<close> and does not distinguish \<^verbatim>\<open>-0\<close> from \<^verbatim>\<open>0\<close>.
\<close>

datatype jsnum = Fin rat | NaN | PInf | NInf

datatype prim = Undefined | Null | Bool bool | Num jsnum | Str string

datatype json = Prim prim | Arr "json list" | Obj "(string \<times> json) list"

type_synonym row = "(string \<times> prim) list"

fun js_sub :: "jsnum \<Rightarrow> jsnum \<Rightarrow> jsnum" where
  "js_sub (Fin a) (Fin b) = Fin (a - b)"
| "js_sub NaN _ = NaN"
| "js_sub _ NaN = NaN"
| "js_sub PInf PInf = NaN"
| "js_sub NInf NInf = NaN"
| "js_sub PInf _ = PInf"
| "js_sub NInf _ = NInf"
| "js_sub (Fin a) PInf = NInf"
| "js_sub (Fin a) NInf = PInf"

definition js_sign :: "jsnum \<Rightarrow> int" where
  "js_sign x = (case x of Fin a \<Rightarrow> (if a < 0 then -1 else if a = 0 then 0 else 1)
                | NaN \<Rightarrow> 0 | PInf \<Rightarrow> 1 | NInf \<Rightarrow> -1)"

definition js_signed_inf :: "int \<Rightarrow> jsnum" where
  "js_signed_inf s = (if s = 0 then NaN else if s < 0 then NInf else PInf)"

fun js_mul :: "jsnum \<Rightarrow> jsnum \<Rightarrow> jsnum" where
  "js_mul (Fin a) (Fin b) = Fin (a * b)"
| "js_mul NaN _ = NaN"
| "js_mul _ NaN = NaN"
| "js_mul x y = js_signed_inf (js_sign x * js_sign y)"

fun js_div :: "jsnum \<Rightarrow> jsnum \<Rightarrow> jsnum" where
  "js_div (Fin a) (Fin b) = (if b = 0 then js_signed_inf (js_sign (Fin a)) else Fin (a / b))"
| "js_div NaN _ = NaN"
| "js_div _ NaN = NaN"
| "js_div (Fin a) _ = Fin 0"
| "js_div x (Fin b) = js_signed_inf (js_sign x * (if b < 0 then -1 else 1))"
| "js_div _ _ = NaN"

fun js_ceil :: "jsnum \<Rightarrow> jsnum" where
  "js_ceil (Fin a) = Fin (of_int \<lceil>a\<rceil>)"
| "js_ceil x = x"

subsection \<open>Strings: decimal digits, coercion to numbers, \<^verbatim>\<open>parseInt\<close>\<close>

definition LF :: char where
  "LF = CHR 0x0A"

definition CR :: char where
  "CR = CHR 0x0D"

definition is_digit :: "char \<Rightarrow> bool" where
  "is_digit c = (CHR ''0'' \<le> c \<and> c \<le> CHR ''9'')"

definition is_letter :: "char \<Rightarrow> bool" where
  "is_letter c = ((CHR ''a'' \<le> c \<and> c \<le> CHR ''z'') \<or> (CHR ''A'' \<le> c \<and> c \<le> CHR ''Z''))"

definition digit_val :: "char \<Rightarrow> nat" where
  "digit_val c = of_char c - 48"

definition digit_char :: "nat \<Rightarrow> char" where
  "digit_char n = char_of (48 + n)"

definition digits_val :: "string \<Rightarrow> nat" where
  "digits_val ds = foldl (\<lambda>acc c. 10 * acc + digit_val c) 0 ds"

text \<open>The decimal rendering of a counter, as the template literal \<^verbatim>\<open>${++paramCount}\<close> produces it.\<close>

function show_nat :: "nat \<Rightarrow> string" where
  "show_nat n = (if n < 10 then [digit_char n] else show_nat (n div 10) @ [digit_char (n mod 10)])"
  by pat_completeness auto
termination
  by (relation "measure id") auto

declare show_nat.simps [simp del]

definition show_int :: "int \<Rightarrow> string" where
  "show_int i = (if i < 0 then CHR ''-'' # show_nat (nat (- i)) else show_nat (nat i))"

text \<open>
  An optional sign followed by a non-empty run of decimal digits, and nothing else: the
  integer literals.
\<close>

definition int_literal :: "string \<Rightarrow> int option" where
  "int_literal s =
     (let (neg, ds) = (case s of c # cs \<Rightarrow> (if c = CHR ''-'' then (True, cs)
                                              else if c = CHR ''+'' then (False, cs)
                                              else (False, s))
                               | [] \<Rightarrow> (False, s))
      in if ds \<noteq> [] \<and> list_all is_digit ds
         then Some (if neg then - int (digits_val ds) else int (digits_val ds))
         else None)"

text \<open>
  \<^verbatim>\<open>ToNumber\<close> on a string, on the fragment this development feeds it: the empty string is
  \<open>0\<close>, an integer literal is its value, and a string that is no numeric literal is
  \<^verbatim>\<open>NaN\<close>. ECMAScript also reads fractions, exponents, radix prefixes, \<^verbatim>\<open>Infinity\<close> and
  surrounding white space as numbers; on those strings this function is not the language's
  coercion, and the theorems that depend on it restrict their inputs to integer literals
  or to \<open>non_numeric\<close> strings, where it is.
\<close>

definition string_to_number :: "string \<Rightarrow> jsnum" where
  "string_to_number s =
     (if s = [] then Fin 0
      else case int_literal s of Some i \<Rightarrow> Fin (of_int i) | None \<Rightarrow> NaN)"


fun to_number :: "prim \<Rightarrow> jsnum" where
  "to_number Undefined = NaN"
| "to_number Null = Fin 0"
| "to_number (Bool b) = Fin (if b then 1 else 0)"
| "to_number (Num n) = n"
| "to_number (Str s) = string_to_number s"

text \<open>
  \<^verbatim>\<open>parseInt(x)\<close> with no radix: the argument is converted to a string, and the longest
  prefix that is an optional sign followed by decimal digits is read; no such prefix gives
  \<^verbatim>\<open>NaN\<close>. Leading white space and the \<^verbatim>\<open>0x\<close> prefix, which \<^verbatim>\<open>parseInt\<close> also
  accepts, are not modelled. A finite number argument loses its fraction (numbers that
  render in exponent notation are not modelled); \<^verbatim>\<open>undefined\<close>, \<^verbatim>\<open>null\<close>, booleans,
  \<^verbatim>\<open>NaN\<close> and the infinities render as words with no leading digit.
\<close>

definition parseInt_string :: "string \<Rightarrow> jsnum" where
  "parseInt_string s =
     (let (neg, r) = (case s of c # cs \<Rightarrow> (if c = CHR ''-'' then (True, cs)
                                             else if c = CHR ''+'' then (False, cs)
                                             else (False, s))
                              | [] \<Rightarrow> (False, s));
          ds = takeWhile is_digit r
      in if ds = [] then NaN
         else Fin (of_int (if neg then - int (digits_val ds) else int (digits_val ds))))"

fun js_parseInt :: "prim \<Rightarrow> jsnum" where
  "js_parseInt (Str s) = parseInt_string s"
| "js_parseInt (Num (Fin a)) = Fin (of_int (if a < 0 then \<lceil>a\<rceil> else \<lfloor>a\<rfloor>))"
| "js_parseInt _ = NaN"

text \<open>Truthiness, as \<^verbatim>\<open>if (school_id)\<close> tests it.\<close>

fun truthy :: "prim \<Rightarrow> bool" where
  "truthy Undefined = False"
| "truthy Null = False"
| "truthy (Bool b) = b"
| "truthy (Num (Fin a)) = (a \<noteq> 0)"
| "truthy (Num NaN) = False"
| "truthy (Num _) = True"
| "truthy (Str s) = (s \<noteq> [])"

text \<open>A destructuring default \<^verbatim>\<open>{ page = 1 } = req.query\<close> applies only to \<^verbatim>\<open>undefined\<close>.\<close>

definition default_to :: "prim \<Rightarrow> string option \<Rightarrow> prim" where
  "default_to d v = (case v of None \<Rightarrow> d | Some s \<Rightarrow> Str s)"

definition query_value :: "string option \<Rightarrow> prim" where
  "query_value v = (case v of None \<Rightarrow> Undefined | Some s \<Rightarrow> Str s)"

subsection \<open>\<^verbatim>\<open>String.prototype.replace\<close> with the pattern \<^verbatim>\<open>/SELECT.*?FROM/\<close>\<close>

fun strip_prefix :: "string \<Rightarrow> string \<Rightarrow> string option" where
  "strip_prefix [] s = Some s"
| "strip_prefix (p # ps) [] = None"
| "strip_prefix (p # ps) (c # cs) = (if p = c then strip_prefix ps cs else None)"

text \<open>
  The pattern has no \<^verbatim>\<open>s\<close> flag, so \<^verbatim>\<open>.\<close> matches any character except a line
  terminator. \<open>lazy_until_FROM\<close> is the part \<^verbatim>\<open>.*?FROM\<close>: it extends the match one
  character at a time and stops at the first \<^verbatim>\<open>FROM\<close>; reaching a line terminator or the
  end of the string first, the match from this \<^verbatim>\<open>SELECT\<close> fails.
\<close>

definition is_line_terminator :: "char \<Rightarrow> bool" where
  "is_line_terminator c = (c = LF \<or> c = CR)"

fun lazy_until_FROM :: "string \<Rightarrow> string option" where
  "lazy_until_FROM [] = None"
| "lazy_until_FROM (c # cs) =
     (case strip_prefix ''FROM'' (c # cs) of
        Some rest \<Rightarrow> Some rest
      | None \<Rightarrow> if is_line_terminator c then None else lazy_until_FROM cs)"

text \<open>
  \<^verbatim>\<open>query.replace(/SELECT.*?FROM/, 'SELECT COUNT(*) FROM')\<close>: the first position where
  the pattern matches is rewritten; a string with no match is returned as it is.
\<close>

fun replace_select_from :: "string \<Rightarrow> string" where
  "replace_select_from [] = []"
| "replace_select_from (c # cs) =
     (case strip_prefix ''SELECT'' (c # cs) of
        Some after_select \<Rightarrow>
          (case lazy_until_FROM after_select of
             Some rest \<Rightarrow> ''SELECT COUNT(*) FROM'' @ rest
           | None \<Rightarrow> c # replace_select_from cs)
      | None \<Rightarrow> c # replace_select_from cs)"


section \<open>The list routes: \<^verbatim>\<open>GET /api/students\<close> and \<^verbatim>\<open>GET /api/schools\<close>\<close>

text \<open>
  \<^verbatim>\<open>req.query\<close>: every key is a string when present and \<^verbatim>\<open>undefined\<close> when absent
  (repeated keys and bracketed keys, which the query parser turns into arrays and objects,
  are not modelled). The key \<^verbatim>\<open>section\<close> is the field \<open>section_key\<close>.
\<close>

record query_string =
  page :: "string option"
  limit :: "string option"
  school_id :: "string option"
  class_number :: "string option"
  section_key :: "string option"
  district_id :: "string option"
  block_id :: "string option"
  status :: "string option"
  search :: "string option"

datatype pgerror = ConnectionError | SyntaxError | InvalidInput string

text \<open>
  \<^verbatim>\<open>pool.query(text, values)\<close>: the driver of \<^verbatim>\<open>config/database.js\<close>. It resolves with
  the rows of the result or rejects with an error.
\<close>

type_synonym pool = "string \<Rightarrow> prim list \<Rightarrow> pgerror + row list"

record response =
  status_code :: nat
  body :: json

record builder =
  query :: string
  params :: "prim list"
  paramCount :: nat

definition line :: "string \<Rightarrow> string" where
  "line l = l @ [LF]"

text \<open>The template literal of the students route, line by line, with its white space.\<close>

definition students_base_query :: string where
  "students_base_query =
     [LF]
     @ line ''      SELECT s.student_id, s.admission_no, s.roll_no, s.first_name, s.last_name,''
     @ line ''             s.gender, s.date_of_birth, s.class_number, s.section, s.category,''
     @ line ''             s.guardian_name, s.guardian_phone, s.status,''
     @ line ''             sc.name as school_name, d.name as district_name''
     @ line ''      FROM students s''
     @ line ''      JOIN schools sc ON sc.school_id = s.school_id''
     @ line ''      JOIN blocks b ON b.block_id = sc.block_id''
     @ line ''      JOIN districts d ON d.district_id = b.district_id''
     @ line ''      WHERE s.status = $1''
     @ ''    ''"

definition schools_base_query :: string where
  "schools_base_query =
     [LF]
     @ line ''      SELECT s.school_id, s.school_code, s.name, s.address, s.phone, s.email,''
     @ line ''             s.total_students, s.total_teachers, s.status, s.established_year,''
     @ line ''             s.facilities, d.name as district_name, b.name as block_name''
     @ line ''      FROM schools s''
     @ line ''      JOIN blocks b ON b.block_id = s.block_id''
     @ line ''      JOIN districts d ON d.district_id = b.district_id''
     @ line ''      WHERE s.status = $1''
     @ ''    ''"

text \<open>
  \<^verbatim>\<open>if (v) { query += ` AND col = $${++paramCount}`; params.push(v); }\<close>
\<close>

definition add_filter :: "string \<Rightarrow> prim \<Rightarrow> builder \<Rightarrow> builder" where
  "add_filter clause v b =
     (if truthy v
      then \<lparr>query = query b @ clause @ show_nat (paramCount b + 1),
            params = params b @ [v],
            paramCount = paramCount b + 1\<rparr>
      else b)"

text \<open>\<^verbatim>\<open>`%${search}%`\<close>\<close>

definition search_pattern :: "string \<Rightarrow> string" where
  "search_pattern s = ''%'' @ s @ ''%''"

text \<open>
  The search clause names two placeholders and pushes the pattern twice.
\<close>

definition add_search :: "string \<Rightarrow> string \<Rightarrow> string option \<Rightarrow> builder \<Rightarrow> builder" where
  "add_search clause1 clause2 v b =
     (case v of
        None \<Rightarrow> b
      | Some s \<Rightarrow>
          (if truthy (Str s)
           then \<lparr>query = query b @ clause1 @ show_nat (paramCount b + 1)
                          @ clause2 @ show_nat (paramCount b + 2) @ '')'',
                 params = params b @ [Str (search_pattern s), Str (search_pattern s)],
                 paramCount = paramCount b + 2\<rparr>
           else b))"

definition students_filters :: "query_string \<Rightarrow> builder" where
  "students_filters q =
     add_search '' AND (s.first_name || ' ' || s.last_name ILIKE $'' '' OR s.admission_no ILIKE $''
       (search q)
     (add_filter '' AND s.section = $'' (query_value (section_key q))
     (add_filter '' AND s.class_number = $'' (query_value (class_number q))
     (add_filter '' AND s.school_id = $'' (query_value (school_id q))
       \<lparr>query = students_base_query,
        params = [default_to (Str ''Active'') (status q)],
        paramCount = 1\<rparr>)))"

definition schools_filters :: "query_string \<Rightarrow> builder" where
  "schools_filters q =
     add_search '' AND (s.name ILIKE $'' '' OR s.school_code ILIKE $''
       (search q)
     (add_filter '' AND b.block_id = $'' (query_value (block_id q))
     (add_filter '' AND d.district_id = $'' (query_value (district_id q))
       \<lparr>query = schools_base_query,
        params = [default_to (Str ''Active'') (status q)],
        paramCount = 1\<rparr>))"

text \<open>
  \<^verbatim>\<open>query += ` ORDER BY ... LIMIT $${++paramCount} OFFSET $${++paramCount}`;
  params.push(limit, offset);\<close>
\<close>

definition add_pagination :: "string \<Rightarrow> prim \<Rightarrow> jsnum \<Rightarrow> builder \<Rightarrow> builder" where
  "add_pagination order_by limit_v offset b =
     \<lparr>query = query b @ order_by @ '' LIMIT $'' @ show_nat (paramCount b + 1)
                    @ '' OFFSET $'' @ show_nat (paramCount b + 2),
      params = params b @ [limit_v, Num offset],
      paramCount = paramCount b + 2\<rparr>"

definition failure :: "nat \<Rightarrow> string \<Rightarrow> response" where
  "failure code msg =
     \<lparr>status_code = code,
      body = Obj [(''success'', Prim (Bool False)), (''error'', Prim (Str msg))]\<rparr>"

definition row_json :: "row \<Rightarrow> json" where
  "row_json r = Obj (map (\<lambda>(k, v). (k, Prim v)) r)"

text \<open>Reading a response body: a member of an object, the elements of an array.\<close>

definition member :: "json \<Rightarrow> string \<Rightarrow> json" where
  "member j k =
     (case j of Obj kvs \<Rightarrow> (case map_of kvs k of None \<Rightarrow> Prim Undefined | Some v \<Rightarrow> v)
              | _ \<Rightarrow> Prim Undefined)"

definition elements :: "json \<Rightarrow> json list" where
  "elements j = (case j of Arr xs \<Rightarrow> xs | _ \<Rightarrow> [])"

text \<open>Reading a property of a row object: a missing property is \<^verbatim>\<open>undefined\<close>.\<close>

definition property :: "row \<Rightarrow> string \<Rightarrow> prim" where
  "property r k = (case map_of r k of None \<Rightarrow> Undefined | Some v \<Rightarrow> v)"

definition pagination :: "prim \<Rightarrow> prim \<Rightarrow> jsnum \<Rightarrow> json" where
  "pagination page_v limit_v totalCount =
     Obj [(''page'', Prim (Num (js_parseInt page_v))),
          (''limit'', Prim (Num (js_parseInt limit_v))),
          (''total'', Prim (Num totalCount)),
          (''pages'', Prim (Num (js_ceil (js_div totalCount (to_number limit_v)))))]"

text \<open>
  The body shared by the two list handlers; they differ in the default limit, the filters,
  the \<^verbatim>\<open>ORDER BY\<close> clause and the message of the \<^verbatim>\<open>catch\<close> block. Every rejected
  \<^verbatim>\<open>await\<close> and the \<^verbatim>\<open>TypeError\<close> of reading \<^verbatim>\<open>.count\<close> of a missing first row
  (\<^verbatim>\<open>countResult.rows[0]\<close> is \<^verbatim>\<open>undefined\<close> on an empty result) end in the
  \<^verbatim>\<open>catch\<close> block, which answers 500.
\<close>

definition count_query :: "builder \<Rightarrow> string" where
  "count_query b = replace_select_from (query b)"

definition list_handler ::
  "pool \<Rightarrow> prim \<Rightarrow> prim \<Rightarrow> builder \<Rightarrow> string \<Rightarrow> string \<Rightarrow> response" where
  "list_handler pool page_v limit_v b order_by msg =
     (let offset = js_mul (js_sub (to_number page_v) (Fin 1)) (to_number limit_v);
          countQuery = count_query b
      in case pool countQuery (params b) of
           Inl e \<Rightarrow> failure 500 msg
         | Inr count_rows \<Rightarrow>
             (case count_rows of
                [] \<Rightarrow> failure 500 msg
              | r # _ \<Rightarrow>
                  (let totalCount = js_parseInt (property r ''count'');
                       b' = add_pagination order_by limit_v offset b
                   in case pool (query b') (params b') of
                        Inl e \<Rightarrow> failure 500 msg
                      | Inr rows \<Rightarrow>
                          \<lparr>status_code = 200,
                           body = Obj [(''success'', Prim (Bool True)),
                                       (''data'', Arr (map row_json rows)),
                                       (''pagination'', pagination page_v limit_v totalCount)]\<rparr>)))"

definition students_list :: "pool \<Rightarrow> query_string \<Rightarrow> response" where
  "students_list pool q =
     list_handler pool
       (default_to (Num (Fin 1)) (page q)) (default_to (Num (Fin 50)) (limit q))
       (students_filters q) '' ORDER BY s.last_name, s.first_name'' ''Failed to fetch students''"

definition schools_list :: "pool \<Rightarrow> query_string \<Rightarrow> response" where
  "schools_list pool q =
     list_handler pool
       (default_to (Num (Fin 1)) (page q)) (default_to (Num (Fin 20)) (limit q))
       (schools_filters q) '' ORDER BY s.name'' ''Failed to fetch schools''"


section \<open>The database behind \<^verbatim>\<open>pool.query\<close>\<close>

text \<open>
  The routes talk to PostgreSQL through the text of their statements, so the database is a
  function from statement text and bound values to rows, and the handlers above take it as a
  parameter. \<open>pg_query\<close> is an in-memory database that reads the statements these routes
  issue: the two list statements (base text, the optional \<^verbatim>\<open>AND\<close> clauses in the order
  the routes append them, the optional \<^verbatim>\<open>ORDER BY ... LIMIT ... OFFSET\<close> tail), the
  student detail statement and the attendance statement. Any other text is a syntax error.

  The schema is not part of these sources. A table of the model is the join the statement
  selects from, one row per student (or school) with its columns by name; values are
  compared in their text form; \<^verbatim>\<open>ORDER BY\<close> sorts text in byte order, \<^verbatim>\<open>NULL\<close> last.
\<close>

record attendance =
  att_student_id :: string
  attendance_date :: int
  att_status :: string

record database =
  students_view :: "row list"
  schools_view :: "row list"
  student_attendance :: "attendance list"

datatype expr = Col string | FullName

datatype cond = Eq string nat | ILike expr nat | Either cond cond

text \<open>A placeholder number: the digits after \<^verbatim>\<open>$\<close>.\<close>

definition placeholder :: "string \<Rightarrow> (nat \<times> string) option" where
  "placeholder s =
     (let ds = takeWhile is_digit s
      in if ds = [] then None else Some (digits_val ds, dropWhile is_digit s))"

definition parse_eq :: "string \<Rightarrow> string \<Rightarrow> string \<Rightarrow> cond list \<times> string" where
  "parse_eq clause column s =
     (case strip_prefix clause s of
        None \<Rightarrow> ([], s)
      | Some r \<Rightarrow>
          (case placeholder r of
             None \<Rightarrow> ([], s)
           | Some (k, r') \<Rightarrow> ([Eq column k], r')))"

definition parse_search ::
  "string \<Rightarrow> expr \<Rightarrow> string \<Rightarrow> expr \<Rightarrow> string \<Rightarrow> cond list \<times> string" where
  "parse_search clause1 e1 clause2 e2 s =
     (case strip_prefix clause1 s of
        None \<Rightarrow> ([], s)
      | Some r1 \<Rightarrow>
          (case placeholder r1 of
             None \<Rightarrow> ([], s)
           | Some (k1, r2) \<Rightarrow>
               (case strip_prefix clause2 r2 of
                  None \<Rightarrow> ([], s)
                | Some r3 \<Rightarrow>
                    (case placeholder r3 of
                       None \<Rightarrow> ([], s)
                     | Some (k2, r4) \<Rightarrow>
                         (case strip_prefix '')'' r4 of
                            None \<Rightarrow> ([], s)
                          | Some r5 \<Rightarrow> ([Either (ILike e1 k1) (ILike e2 k2)], r5))))))"

text \<open>
  The end of a list statement: nothing, or the \<^verbatim>\<open>ORDER BY\<close> clause with
  \<^verbatim>\<open>LIMIT $a OFFSET $b\<close>. The result is the pair of placeholder numbers of the window, if
  there is one; \<open>None\<close> is a text the database cannot read.
\<close>

definition parse_tail :: "string \<Rightarrow> string \<Rightarrow> (nat \<times> nat) option option" where
  "parse_tail order_by s =
     (if s = [] then Some None
      else case strip_prefix (order_by @ '' LIMIT $'') s of
             None \<Rightarrow> None
           | Some r1 \<Rightarrow>
               (case placeholder r1 of
                  None \<Rightarrow> None
                | Some (a, r2) \<Rightarrow>
                    (case strip_prefix '' OFFSET $'' r2 of
                       None \<Rightarrow> None
                     | Some r3 \<Rightarrow>
                         (case placeholder r3 of
                            None \<Rightarrow> None
                          | Some (b, r4) \<Rightarrow> if r4 = [] then Some (Some (a, b)) else None))))"

record statement =
  conds :: "cond list"
  window :: "(nat \<times> nat) option"

definition parse_students :: "string \<Rightarrow> statement option" where
  "parse_students sql =
     (case strip_prefix students_base_query sql of
        None \<Rightarrow> None
      | Some r0 \<Rightarrow>
          (let (c1, r1) = parse_eq '' AND s.school_id = $'' ''school_id'' r0;
               (c2, r2) = parse_eq '' AND s.class_number = $'' ''class_number'' r1;
               (c3, r3) = parse_eq '' AND s.section = $'' ''section'' r2;
               (c4, r4) = parse_search '' AND (s.first_name || ' ' || s.last_name ILIKE $'' FullName
                            '' OR s.admission_no ILIKE $'' (Col ''admission_no'') r3
           in case parse_tail '' ORDER BY s.last_name, s.first_name'' r4 of
                None \<Rightarrow> None
              | Some w \<Rightarrow> Some \<lparr>conds = Eq ''status'' 1 # c1 @ c2 @ c3 @ c4, window = w\<rparr>))"

definition parse_schools :: "string \<Rightarrow> statement option" where
  "parse_schools sql =
     (case strip_prefix schools_base_query sql of
        None \<Rightarrow> None
      | Some r0 \<Rightarrow>
          (let (c1, r1) = parse_eq '' AND d.district_id = $'' ''district_id'' r0;
               (c2, r2) = parse_eq '' AND b.block_id = $'' ''block_id'' r1;
               (c3, r3) = parse_search '' AND (s.name ILIKE $'' (Col ''name'')
                            '' OR s.school_code ILIKE $'' (Col ''school_code'') r2
           in case parse_tail '' ORDER BY s.name'' r3 of
                None \<Rightarrow> None
              | Some w \<Rightarrow> Some \<lparr>conds = Eq ''status'' 1 # c1 @ c2 @ c3, window = w\<rparr>))"

subsection \<open>Values on the wire\<close>

text \<open>
  The driver sends a string as it is, a number as its \<^verbatim>\<open>toString()\<close>, and
  \<^verbatim>\<open>null\<close> or \<^verbatim>\<open>undefined\<close> as \<^verbatim>\<open>NULL\<close> (\<open>None\<close>). A fraction renders with a
  decimal point; its digits after the point are not modelled.
\<close>

definition number_text :: "jsnum \<Rightarrow> string" where
  "number_text n =
     (case n of
        Fin a \<Rightarrow> (if a = of_int \<lfloor>a\<rfloor> then show_int \<lfloor>a\<rfloor> else show_int \<lfloor>a\<rfloor> @ ''.'')
      | NaN \<Rightarrow> ''NaN''
      | PInf \<Rightarrow> ''Infinity''
      | NInf \<Rightarrow> ''-Infinity'')"

fun wire :: "prim \<Rightarrow> string option" where
  "wire Undefined = None"
| "wire Null = None"
| "wire (Bool b) = Some (if b then ''true'' else ''false'')"
| "wire (Num n) = Some (number_text n)"
| "wire (Str s) = Some s"

text \<open>The value bound to placeholder \<open>k\<close>, counted from 1.\<close>

definition bound :: "prim list \<Rightarrow> nat \<Rightarrow> string option" where
  "bound ps k = (if 1 \<le> k \<and> k \<le> length ps then wire (ps ! (k - 1)) else None)"

definition column_text :: "row \<Rightarrow> string \<Rightarrow> string option" where
  "column_text r c = (case map_of r c of None \<Rightarrow> None | Some v \<Rightarrow> wire v)"

subsection \<open>\<^verbatim>\<open>ILIKE\<close>\<close>

definition lower :: "char \<Rightarrow> char" where
  "lower c = (if CHR ''A'' \<le> c \<and> c \<le> CHR ''Z'' then char_of (of_char c + (32::nat)) else c)"

text \<open>
  \<open>like_match pattern text\<close>: \<^verbatim>\<open>%\<close> stands for any run of characters, \<^verbatim>\<open>_\<close> for any
  one character, a backslash takes the next character literally, and letters match without
  regard to case. (A pattern that ends in a backslash is an error in PostgreSQL; here it
  matches nothing.)
\<close>

fun like_match :: "string \<Rightarrow> string \<Rightarrow> bool" where
  "like_match [] t = (t = [])"
| "like_match (p # ps) t =
     (if p = CHR ''%'' then
        (like_match ps t \<or> (case t of [] \<Rightarrow> False | _ # ts \<Rightarrow> like_match (p # ps) ts))
      else if p = CHR ''_'' then
        (case t of [] \<Rightarrow> False | _ # ts \<Rightarrow> like_match ps ts)
      else if p = CHR 0x5C then
        (case ps of
           [] \<Rightarrow> False
         | q # qs \<Rightarrow> (case t of [] \<Rightarrow> False | c # ts \<Rightarrow> lower c = lower q \<and> like_match qs ts))
      else
        (case t of [] \<Rightarrow> False | c # ts \<Rightarrow> lower c = lower p \<and> like_match ps ts))"

definition expr_text :: "row \<Rightarrow> expr \<Rightarrow> string option" where
  "expr_text r e =
     (case e of
        Col c \<Rightarrow> column_text r c
      | FullName \<Rightarrow>
          (case (column_text r ''first_name'', column_text r ''last_name'') of
             (Some f, Some l) \<Rightarrow> Some (f @ '' '' @ l)
           | _ \<Rightarrow> None))"

text \<open>A condition holds of a row when it is true; a comparison with \<^verbatim>\<open>NULL\<close> is not.\<close>

fun holds :: "prim list \<Rightarrow> row \<Rightarrow> cond \<Rightarrow> bool" where
  "holds ps r (Eq c k) =
     (case (column_text r c, bound ps k) of (Some a, Some b) \<Rightarrow> a = b | _ \<Rightarrow> False)"
| "holds ps r (ILike e k) =
     (case (expr_text r e, bound ps k) of (Some t, Some pat) \<Rightarrow> like_match pat t | _ \<Rightarrow> False)"
| "holds ps r (Either a b) = (holds ps r a \<or> holds ps r b)"


subsection \<open>Running a statement\<close>

fun cond_placeholders :: "cond \<Rightarrow> nat list" where
  "cond_placeholders (Eq c k) = [k]"
| "cond_placeholders (ILike e k) = [k]"
| "cond_placeholders (Either a b) = cond_placeholders a @ cond_placeholders b"

definition statement_placeholders :: "statement \<Rightarrow> nat list" where
  "statement_placeholders st =
     concat (map cond_placeholders (conds st))
     @ (case window st of None \<Rightarrow> [] | Some (a, b) \<Rightarrow> [a, b])"

text \<open>
  The server rejects a bind message whose number of values differs from the number of
  parameters of the statement, which is its highest placeholder.
\<close>

definition arity_ok :: "statement \<Rightarrow> prim list \<Rightarrow> bool" where
  "arity_ok st ps = (length ps = fold max (statement_placeholders st) 0)"

text \<open>
  The value of \<^verbatim>\<open>LIMIT\<close> or \<^verbatim>\<open>OFFSET\<close> is a \<^verbatim>\<open>bigint\<close>: text that is no integer
  literal is invalid input, a negative value is an error, and \<^verbatim>\<open>NULL\<close> (\<open>None\<close>) is
  no limit and no offset.
\<close>

definition window_value :: "prim list \<Rightarrow> nat \<Rightarrow> pgerror + nat option" where
  "window_value ps k =
     (case bound ps k of
        None \<Rightarrow> Inr None
      | Some t \<Rightarrow>
          (case int_literal t of
             None \<Rightarrow> Inl (InvalidInput t)
           | Some i \<Rightarrow> if i < 0 then Inl (InvalidInput t) else Inr (Some (nat i))))"

definition project :: "string list \<Rightarrow> row \<Rightarrow> row" where
  "project columns r = map (\<lambda>c. (c, case map_of r c of None \<Rightarrow> Null | Some v \<Rightarrow> v)) columns"

definition matching :: "row list \<Rightarrow> statement \<Rightarrow> prim list \<Rightarrow> row list" where
  "matching table st ps = filter (\<lambda>r. list_all (holds ps r) (conds st)) table"

text \<open>\<^verbatim>\<open>LIMIT n OFFSET k\<close> on the ordered rows.\<close>

definition page_of :: "'a list \<Rightarrow> nat option \<Rightarrow> nat option \<Rightarrow> 'a list" where
  "page_of rows limit_n off =
     (let skipped = drop (case off of None \<Rightarrow> 0 | Some k \<Rightarrow> k) rows
      in case limit_n of None \<Rightarrow> skipped | Some n \<Rightarrow> take n skipped)"

definition run_list ::
  "row list \<Rightarrow> string list \<Rightarrow> (row \<Rightarrow> 'k::linorder) \<Rightarrow> statement \<Rightarrow> prim list
     \<Rightarrow> pgerror + row list" where
  "run_list table columns key st ps =
     (if \<not> arity_ok st ps then Inl (InvalidInput ''bind'')
      else case window st of
             None \<Rightarrow> Inr (map (project columns) (matching table st ps))
           | Some (a, b) \<Rightarrow>
               (case window_value ps a of
                  Inl e \<Rightarrow> Inl e
                | Inr limit_n \<Rightarrow>
                    (case window_value ps b of
                       Inl e \<Rightarrow> Inl e
                     | Inr off \<Rightarrow>
                         Inr (map (project columns)
                                (page_of (sort_key key (matching table st ps)) limit_n off)))))"

definition nulls_last :: "row \<Rightarrow> string \<Rightarrow> bool \<times> string" where
  "nulls_last r c = (case column_text r c of None \<Rightarrow> (True, []) | Some t \<Rightarrow> (False, t))"

text \<open>\<^verbatim>\<open>ORDER BY s.last_name, s.first_name\<close> and \<^verbatim>\<open>ORDER BY s.name\<close>.\<close>

definition students_order :: "row \<Rightarrow> (bool \<times> string) \<times> (bool \<times> string)" where
  "students_order r = (nulls_last r ''last_name'', nulls_last r ''first_name'')"

definition schools_order :: "row \<Rightarrow> bool \<times> string" where
  "schools_order r = nulls_last r ''name''"

definition students_columns :: "string list" where
  "students_columns =
     [''student_id'', ''admission_no'', ''roll_no'', ''first_name'', ''last_name'',
      ''gender'', ''date_of_birth'', ''class_number'', ''section'', ''category'',
      ''guardian_name'', ''guardian_phone'', ''status'',
      ''school_name'', ''district_name'']"

definition schools_columns :: "string list" where
  "schools_columns =
     [''school_id'', ''school_code'', ''name'', ''address'', ''phone'', ''email'',
      ''total_students'', ''total_teachers'', ''status'', ''established_year'',
      ''facilities'', ''district_name'', ''block_name'']"

text \<open>The two statements of the student detail route, as the source writes them.\<close>

definition student_detail_query :: string where
  "student_detail_query =
     [LF]
     @ line ''      SELECT s.*, sc.name as school_name, d.name as district_name,''
     @ line ''             EXTRACT(YEAR FROM AGE(s.date_of_birth)) as age''
     @ line ''      FROM students s''
     @ line ''      JOIN schools sc ON sc.school_id = s.school_id  ''
     @ line ''      JOIN blocks b ON b.block_id = sc.block_id''
     @ line ''      JOIN districts d ON d.district_id = b.district_id''
     @ line ''      WHERE s.student_id = $1''
     @ ''    ''"

definition attendance_query :: string where
  "attendance_query =
     [LF]
     @ line ''      SELECT attendance_date, status ''
     @ line ''      FROM student_attendance ''
     @ line ''      WHERE student_id = $1 ''
     @ line ''      ORDER BY attendance_date DESC ''
     @ line ''      LIMIT 10''
     @ ''    ''"

text \<open>
  An attendance row as the driver returns it. The date is a day number here (the driver
  makes a \<^verbatim>\<open>Date\<close> of it).
\<close>

definition attendance_row :: "attendance \<Rightarrow> row" where
  "attendance_row a =
     [(''attendance_date'', Num (Fin (of_int (attendance_date a)))), (''status'', Str (att_status a))]"

text \<open>
  \<^verbatim>\<open>WHERE student_id = $1 ORDER BY attendance_date DESC LIMIT 10\<close>
\<close>

definition recent_attendance :: "attendance list \<Rightarrow> string \<Rightarrow> attendance list" where
  "recent_attendance table sid =
     take 10 (sort_key (\<lambda>a. - attendance_date a) (filter (\<lambda>a. att_student_id a = sid) table))"

definition pg_query :: "database \<Rightarrow> pool" where
  "pg_query db sql ps =
     (if sql = student_detail_query then
        (if length ps \<noteq> 1 then Inl (InvalidInput ''bind'')
         else Inr (filter (\<lambda>r. holds ps r (Eq ''student_id'' 1)) (students_view db)))
      else if sql = attendance_query then
        (if length ps \<noteq> 1 then Inl (InvalidInput ''bind'')
         else case bound ps 1 of
                None \<Rightarrow> Inr []
              | Some sid \<Rightarrow> Inr (map attendance_row (recent_attendance (student_attendance db) sid)))
      else case parse_students sql of
             Some st \<Rightarrow> run_list (students_view db) students_columns students_order st ps
           | None \<Rightarrow>
               (case parse_schools sql of
                  Some st \<Rightarrow> run_list (schools_view db) schools_columns schools_order st ps
                | None \<Rightarrow> Inl SyntaxError))"

text \<open>
  The rows a list request is about: those that satisfy the conditions the database reads in
  the statement of the request, under the values the request binds.
\<close>

definition students_matching :: "database \<Rightarrow> query_string \<Rightarrow> row list" where
  "students_matching db q =
     (case parse_students (query (students_filters q)) of
        None \<Rightarrow> []
      | Some st \<Rightarrow> matching (students_view db) st (params (students_filters q)))"

definition schools_matching :: "database \<Rightarrow> query_string \<Rightarrow> row list" where
  "schools_matching db q =
     (case parse_schools (query (schools_filters q)) of
        None \<Rightarrow> []
      | Some st \<Rightarrow> matching (schools_view db) st (params (schools_filters q)))"

section \<open>The detail route: \<^verbatim>\<open>GET /api/students/:id\<close>\<close>




section \<open>The browser side: \<^verbatim>\<open>web/js/app.js\<close>\<close>

subsection \<open>\<^verbatim>\<open>fetchApi\<close> and \<^verbatim>\<open>fetchWithCache\<close>\<close>

text \<open>
  \<^verbatim>\<open>fetch(url)\<close> rejects (the network failed) or resolves with a response, whose body may
  or may not parse as JSON. The network is a parameter of the model; every call of it is
  recorded in the list of requested URLs that the functions return.
\<close>

record http_response =
  ok :: bool
  http_status :: nat
  statusText :: string
  json_body :: "json option"

datatype fetch_error = NetworkFailure | HttpError nat string | InvalidJson

type_synonym network = "string \<Rightarrow> fetch_error + http_response"

definition fetchApi :: "network \<Rightarrow> string \<Rightarrow> string \<Rightarrow> fetch_error + json" where
  "fetchApi net api_base endpoint =
     (case net (api_base @ endpoint) of
        Inl e \<Rightarrow> Inl e
      | Inr resp \<Rightarrow>
          (if \<not> ok resp then Inl (HttpError (http_status resp) (statusText resp))
           else case json_body resp of None \<Rightarrow> Inl InvalidJson | Some j \<Rightarrow> Inr j))"

record cache_entry =
  data :: json
  timestamp :: int

type_synonym cache = "string \<rightharpoonup> cache_entry"

text \<open>
  \<^verbatim>\<open>fetchWithCache(endpoint, ttl = 30000)\<close>. \<open>now_test\<close> is the reading of
  \<^verbatim>\<open>Date.now()\<close> in the freshness test and \<open>now_store\<close> the reading when the entry is
  stored, after the fetch has returned. The result is the value the promise settles with,
  the cache afterwards and the URLs requested by this call. \<open>fetch_and_store\<close> is the
  second half of the function: the awaited \<^verbatim>\<open>fetchApi\<close>, which ends the call when it
  throws, and \<^verbatim>\<open>this.cache.set\<close>.
\<close>

text \<open>The default parameter \<^verbatim>\<open>ttl = 30000\<close>.\<close>

definition default_ttl :: "int option \<Rightarrow> int" where
  "default_ttl ttl_arg = (case ttl_arg of None \<Rightarrow> 30000 | Some t \<Rightarrow> t)"

definition fetch_and_store ::
  "network \<Rightarrow> string \<Rightarrow> cache \<Rightarrow> string \<Rightarrow> int
     \<Rightarrow> (fetch_error + json) \<times> cache \<times> string list" where
  "fetch_and_store net api_base c endpoint now_store =
     (case fetchApi net api_base endpoint of
        Inl e \<Rightarrow> (Inl e, c, [api_base @ endpoint])
      | Inr d \<Rightarrow>
          (Inr d, c(endpoint \<mapsto> \<lparr>data = d, timestamp = now_store\<rparr>), [api_base @ endpoint]))"

definition fetchWithCache ::
  "network \<Rightarrow> string \<Rightarrow> cache \<Rightarrow> string \<Rightarrow> int option \<Rightarrow> int \<Rightarrow> int
     \<Rightarrow> (fetch_error + json) \<times> cache \<times> string list" where
  "fetchWithCache net api_base c endpoint ttl_arg now_test now_store =
     (let ttl = default_ttl ttl_arg;
          cacheKey = endpoint
      in case c cacheKey of
           Some cached \<Rightarrow>
             (if now_test - timestamp cached < ttl then (Inr (data cached), c, [])
              else fetch_and_store net api_base c cacheKey now_store)
         | None \<Rightarrow> fetch_and_store net api_base c cacheKey now_store)"

subsection \<open>Navigation, search and pagination\<close>

text \<open>
  What the event handlers of \<^verbatim>\<open>OdishaSchoolPortal\<close> do to the fields of the object. A
  load operation reads \<open>currentPage\<close> and fetches and renders; the model records that it
  was started and with which page. \<open>activeSection\<close> is the section of the navigation item
  with class \<^verbatim>\<open>active\<close>. The document is taken to have the elements the handlers look
  up, so no lookup throws.
\<close>

datatype load = LoadDashboard | LoadSchools "int option" | LoadStudents "int option" | LoadAnalytics

record portal =
  currentPage :: "string \<rightharpoonup> int"
  portal_cache :: cache
  activeSection :: string
  loads :: "load list"


definition loadDashboard :: "portal \<Rightarrow> portal" where
  "loadDashboard s = s\<lparr>loads := loads s @ [LoadDashboard]\<rparr>"

definition loadSchools :: "portal \<Rightarrow> portal" where
  "loadSchools s = s\<lparr>loads := loads s @ [LoadSchools (currentPage s ''schools'')]\<rparr>"

definition loadStudents :: "portal \<Rightarrow> portal" where
  "loadStudents s = s\<lparr>loads := loads s @ [LoadStudents (currentPage s ''students'')]\<rparr>"

definition loadAnalytics :: "portal \<Rightarrow> portal" where
  "loadAnalytics s = s\<lparr>loads := loads s @ [LoadAnalytics]\<rparr>"

definition showSection :: "string \<Rightarrow> portal \<Rightarrow> portal" where
  "showSection sectionName s =
     (let s' = s\<lparr>activeSection := sectionName\<rparr>
      in if sectionName = ''dashboard'' then loadDashboard s'
         else if sectionName = ''schools'' then loadSchools s'
         else if sectionName = ''students'' then loadStudents s'
         else if sectionName = ''analytics'' then loadAnalytics s'
         else s')"








section \<open>The dashboard poller: \<^verbatim>\<open>web/js/dashboard.js\<close>\<close>

text \<open>
  The part of the page the poller writes: the element with id \<^verbatim>\<open>lastSync\<close>, if the
  document has one, and the timers set with \<^verbatim>\<open>setTimeout\<close>, each with its delay in
  milliseconds and what its callback does.
\<close>

record sync_element =
  textContent :: string
  color :: string

datatype callback = RetryUpdate | ResetSyncColor | Other string

record dashboard =
  lastSync :: "sync_element option"
  timers :: "(nat \<times> callback) list"
  console_errors :: "string list"

text \<open>
  A step of the update cycle runs on the state and either completes or throws; \<open>Some e\<close>
  is the error thrown, with the state as it was left.
\<close>

type_synonym step = "dashboard \<Rightarrow> string option \<times> dashboard"

definition updateSyncStatus :: "string \<Rightarrow> dashboard \<Rightarrow> dashboard" where
  "updateSyncStatus ts s =
     (case lastSync s of
        None \<Rightarrow> s
      | Some el \<Rightarrow>
          s\<lparr>lastSync := Some (el\<lparr>textContent := ''Last sync: '' @ ts, color := ''#10b981''\<rparr>),
            timers := timers s @ [(2000, ResetSyncColor)]\<rparr>)"

definition handleUpdateError :: "string \<Rightarrow> dashboard \<Rightarrow> dashboard" where
  "handleUpdateError e s =
     (let s1 = s\<lparr>console_errors := console_errors s @ [''Dashboard update error:'']\<rparr>;
          s2 = (case lastSync s1 of
                  None \<Rightarrow> s1
                | Some el \<Rightarrow>
                    s1\<lparr>lastSync :=
                         Some (el\<lparr>textContent := ''Sync failed - Retrying...'', color := ''#ef4444''\<rparr>)\<rparr>)
      in s2\<lparr>timers := timers s2 @ [(10000, RetryUpdate)]\<rparr>)"

text \<open>
  The \<^verbatim>\<open>try\<close> block of \<^verbatim>\<open>updateDashboardData\<close>: the three awaited updates in order,
  then \<^verbatim>\<open>updateSyncStatus\<close>. The first step that throws ends the block.
\<close>

definition try_block :: "step \<Rightarrow> step \<Rightarrow> step \<Rightarrow> string \<Rightarrow> step" where
  "try_block updateKPIsAnimated updateChartsData updateSystemMetrics ts s =
     (case updateKPIsAnimated s of
        (Some e, s1) \<Rightarrow> (Some e, s1)
      | (None, s1) \<Rightarrow>
          (case updateChartsData s1 of
             (Some e, s2) \<Rightarrow> (Some e, s2)
           | (None, s2) \<Rightarrow>
               (case updateSystemMetrics s2 of
                  (Some e, s3) \<Rightarrow> (Some e, s3)
                | (None, s3) \<Rightarrow> (None, updateSyncStatus ts s3))))"

definition updateDashboardData :: "step \<Rightarrow> step \<Rightarrow> step \<Rightarrow> string \<Rightarrow> dashboard \<Rightarrow> dashboard" where
  "updateDashboardData updateKPIsAnimated updateChartsData updateSystemMetrics ts s =
     (case try_block updateKPIsAnimated updateChartsData updateSystemMetrics ts s of
        (None, s') \<Rightarrow> s'
      | (Some e, s') \<Rightarrow>
          handleUpdateError e (s'\<lparr>console_errors := console_errors s' @ [''Real-time update failed:'']\<rparr>))"

text \<open>What a timer does when it fires.\<close>

definition fire :: "step \<Rightarrow> step \<Rightarrow> step \<Rightarrow> string \<Rightarrow> callback \<Rightarrow> dashboard \<Rightarrow> dashboard" where
  "fire updateKPIsAnimated updateChartsData updateSystemMetrics ts cb s =
     (case cb of
        RetryUpdate \<Rightarrow> updateDashboardData updateKPIsAnimated updateChartsData updateSystemMetrics ts s
      | ResetSyncColor \<Rightarrow> s\<lparr>lastSync := map_option (\<lambda>el. el\<lparr>color := ''#64748b''\<rparr>) (lastSync s)\<rparr>
      | Other _ \<Rightarrow> s)"

definition retries :: "dashboard \<Rightarrow> (nat \<times> callback) list" where
  "retries s = filter (\<lambda>t. snd t = RetryUpdate) (timers s)"


section \<open>Sample requests and databases\<close>

definition no_filters :: query_string where
  "no_filters =
     \<lparr>page = None, limit = None, school_id = None, class_number = None, section_key = None,
      district_id = None, block_id = None, status = None, search = None\<rparr>"

definition student :: "string \<Rightarrow> string \<Rightarrow> string \<Rightarrow> row" where
  "student sid first_name last_name =
     [(''student_id'', Str sid), (''admission_no'', Str (''ADM'' @ sid)),
      (''first_name'', Str first_name), (''last_name'', Str last_name),
      (''class_number'', Num (Fin 5)), (''section'', Str ''A''), (''status'', Str ''Active''),
      (''school_id'', Num (Fin 7)), (''school_name'', Str ''Public School''),
      (''district_name'', Str ''Khordha'')]"

definition school :: "string \<Rightarrow> string \<Rightarrow> string \<Rightarrow> row" where
  "school sid code school_name =
     [(''school_id'', Str sid), (''school_code'', Str code), (''name'', Str school_name),
      (''status'', Str ''Active''), (''district_id'', Num (Fin 1)), (''block_id'', Num (Fin 3)),
      (''district_name'', Str ''Khordha''), (''block_name'', Str ''Balianta'')]"

definition attended :: "string \<Rightarrow> int \<Rightarrow> attendance" where
  "attended sid day = \<lparr>att_student_id = sid, attendance_date = day, att_status = ''Present''\<rparr>"

definition empty_db :: database where
  "empty_db = \<lparr>students_view = [], schools_view = [], student_attendance = []\<rparr>"

definition sample_db :: database where
  "sample_db =
     \<lparr>students_view =
        [student ''1'' ''Asha'' ''Das'', student ''2'' ''Bina'' ''Behera'',
         student ''3'' ''Chandan'' ''Sahoo''],
      schools_view =
        [school ''7'' ''SCH007'' ''Public School'', school ''8'' ''SCH008'' ''Model School'',
         school ''9'' ''SCH009'' ''Public High School''],
      student_attendance =
        [attended ''1'' 3, attended ''2'' 4, attended ''1'' 12, attended ''1'' 1, attended ''1'' 7,
         attended ''1'' 2, attended ''1'' 9, attended ''1'' 5, attended ''1'' 11, attended ''1'' 6,
         attended ''1'' 8, attended ''1'' 10, attended ''1'' 4]\<rparr>"

text \<open>A network that answers every URL with the same JSON body, and one that is down.\<close>

definition answering :: "json \<Rightarrow> network" where
  "answering j url = Inr \<lparr>ok = True, http_status = 200, statusText = ''OK'', json_body = Some j\<rparr>"

definition offline :: network where
  "offline url = Inl NetworkFailure"

text \<open>Steps of the update cycle: one that completes and one that throws.\<close>

definition completes :: step where
  "completes s = (None, s)"

definition throws :: "string \<Rightarrow> step" where
  "throws e s = (Some e, s)"

definition sample_dashboard :: dashboard where
  "sample_dashboard =
     \<lparr>lastSync = Some \<lparr>textContent = ''Last sync: 10:00:00'', color = ''#64748b''\<rparr>,
      timers = [], console_errors = []\<rparr>"


section \<open>The count statement is the data statement\<close>

lemma strip_prefix_append: "strip_prefix p (p @ t) = Some t"
  by (induction p) auto

lemma strip_prefix_self: "strip_prefix p p = Some []"
  using strip_prefix_append [of p "[]"] by simp

lemma replace_no_S: "CHR ''S'' \<notin> set s \<Longrightarrow> replace_select_from s = s"
  by (induction s) auto

text \<open>
  In both base texts the \<^verbatim>\<open>SELECT\<close> line ends before any \<^verbatim>\<open>FROM\<close>, so the pattern
  does not match there, and no other \<^verbatim>\<open>SELECT\<close> follows.
\<close>

lemma students_base_no_match:
  "CHR ''S'' \<notin> set t \<Longrightarrow> replace_select_from (students_base_query @ t) = students_base_query @ t"
  unfolding students_base_query_def line_def
  by (simp add: replace_no_S is_line_terminator_def LF_def CR_def)

lemma schools_base_no_match:
  "CHR ''S'' \<notin> set t \<Longrightarrow> replace_select_from (schools_base_query @ t) = schools_base_query @ t"
  unfolding schools_base_query_def line_def
  by (simp add: replace_no_S is_line_terminator_def LF_def CR_def)

lemma digit_char_not_S: "d < 10 \<Longrightarrow> digit_char d \<noteq> CHR ''S''"
proof
  assume d: "d < 10" and eq: "digit_char d = CHR ''S''"
  have "of_char (digit_char d) = (of_char (CHR ''S'') :: nat)"
    using eq by simp
  then have "(48 + d) mod 256 = 83"
    by (simp add: digit_char_def)
  with d show False
    by simp
qed

lemma show_nat_no_S: "CHR ''S'' \<notin> set (show_nat n)"
proof (induction n rule: show_nat.induct)
  case (1 n)
  show ?case
  proof (cases "n < 10")
    case True
    then show ?thesis
      using digit_char_not_S [of n] by (subst show_nat.simps) auto
  next
    case False
    then have "n mod 10 < 10" by simp
    then show ?thesis
      using False "1" digit_char_not_S [of "n mod 10"] by (subst show_nat.simps) auto
  qed
qed

lemma add_filter_tail:
  assumes "CHR ''S'' \<notin> set clause" and "query b = base @ t" and "CHR ''S'' \<notin> set t"
  shows "\<exists>t'. query (add_filter clause v b) = base @ t' \<and> CHR ''S'' \<notin> set t'"
  using assms by (simp add: add_filter_def show_nat_no_S)

lemma add_search_tail:
  assumes "CHR ''S'' \<notin> set clause1" and "CHR ''S'' \<notin> set clause2"
    and "query b = base @ t" and "CHR ''S'' \<notin> set t"
  shows "\<exists>t'. query (add_search clause1 clause2 v b) = base @ t' \<and> CHR ''S'' \<notin> set t'"
  using assms by (simp add: add_search_def show_nat_no_S split: option.splits)

lemma students_filters_tail:
  "\<exists>t. query (students_filters q) = students_base_query @ t \<and> CHR ''S'' \<notin> set t"
proof -
  let ?b0 = "\<lparr>query = students_base_query, params = [default_to (Str ''Active'') (status q)],
              paramCount = 1\<rparr>"
  have "\<exists>t. query ?b0 = students_base_query @ t \<and> CHR ''S'' \<notin> set t"
    by simp
  then obtain t1 where "query (add_filter '' AND s.school_id = $'' (query_value (school_id q)) ?b0)
      = students_base_query @ t1" "CHR ''S'' \<notin> set t1"
    using add_filter_tail [of "'' AND s.school_id = $''" ?b0 students_base_query] by force
  then obtain t2 where "query (add_filter '' AND s.class_number = $'' (query_value (class_number q))
      (add_filter '' AND s.school_id = $'' (query_value (school_id q)) ?b0))
      = students_base_query @ t2" "CHR ''S'' \<notin> set t2"
    using add_filter_tail [of "'' AND s.class_number = $''" _ students_base_query t1] by force
  then obtain t3 where "query (add_filter '' AND s.section = $'' (query_value (section_key q))
      (add_filter '' AND s.class_number = $'' (query_value (class_number q))
      (add_filter '' AND s.school_id = $'' (query_value (school_id q)) ?b0)))
      = students_base_query @ t3" "CHR ''S'' \<notin> set t3"
    using add_filter_tail [of "'' AND s.section = $''" _ students_base_query t2] by force
  then show ?thesis
    unfolding students_filters_def
    using add_search_tail [of "'' AND (s.first_name || ' ' || s.last_name ILIKE $''"
        "'' OR s.admission_no ILIKE $''" _ students_base_query t3] by force
qed

lemma schools_filters_tail:
  "\<exists>t. query (schools_filters q) = schools_base_query @ t \<and> CHR ''S'' \<notin> set t"
proof -
  let ?b0 = "\<lparr>query = schools_base_query, params = [default_to (Str ''Active'') (status q)],
              paramCount = 1\<rparr>"
  have "\<exists>t. query ?b0 = schools_base_query @ t \<and> CHR ''S'' \<notin> set t"
    by simp
  then obtain t1 where "query (add_filter '' AND d.district_id = $'' (query_value (district_id q)) ?b0)
      = schools_base_query @ t1" "CHR ''S'' \<notin> set t1"
    using add_filter_tail [of "'' AND d.district_id = $''" ?b0 schools_base_query] by force
  then obtain t2 where "query (add_filter '' AND b.block_id = $'' (query_value (block_id q))
      (add_filter '' AND d.district_id = $'' (query_value (district_id q)) ?b0))
      = schools_base_query @ t2" "CHR ''S'' \<notin> set t2"
    using add_filter_tail [of "'' AND b.block_id = $''" _ schools_base_query t1] by force
  then show ?thesis
    unfolding schools_filters_def
    using add_search_tail [of "'' AND (s.name ILIKE $''" "'' OR s.school_code ILIKE $''"
        _ schools_base_query t2] by force
qed

text \<open>
  For every request, \<^verbatim>\<open>query.replace(/SELECT.*?FROM/, 'SELECT COUNT(*) FROM')\<close> returns
  the query as it is: the statement sent to count the rows is the data statement without
  its \<^verbatim>\<open>ORDER BY ... LIMIT ... OFFSET\<close> tail.
\<close>

lemma students_count_query: "count_query (students_filters q) = query (students_filters q)"
  using students_filters_tail [of q] students_base_no_match by (auto simp: count_query_def)

lemma schools_count_query: "count_query (schools_filters q) = query (schools_filters q)"
  using schools_filters_tail [of q] schools_base_no_match by (auto simp: count_query_def)


section \<open>The list routes on the in-memory database\<close>

subsection \<open>Decimal digits\<close>

lemma of_char_digit_char: "d < 10 \<Longrightarrow> of_char (digit_char d) = 48 + d"
  by (simp add: digit_char_def)

lemma is_digit_digit_char: "d < 10 \<Longrightarrow> is_digit (digit_char d)"
  by (simp add: is_digit_def less_eq_char_def of_char_digit_char)

lemma digit_val_digit_char: "d < 10 \<Longrightarrow> digit_val (digit_char d) = d"
  by (simp add: digit_val_def of_char_digit_char)

lemma digits_val_snoc: "digits_val (ds @ [c]) = 10 * digits_val ds + digit_val c"
  by (simp add: digits_val_def)

lemma show_nat_digits: "list_all is_digit (show_nat n) \<and> show_nat n \<noteq> [] \<and> digits_val (show_nat n) = n"
proof (induction n rule: show_nat.induct)
  case (1 n)
  show ?case
  proof (cases "n < 10")
    case True
    then show ?thesis
      by (subst (1 2 3) show_nat.simps)
        (simp add: is_digit_digit_char digit_val_digit_char digits_val_def)
  next
    case False
    then have m: "n mod 10 < 10" by simp
    from False "1" have ih: "list_all is_digit (show_nat (n div 10))" "digits_val (show_nat (n div 10)) = n div 10"
      by simp_all
    show ?thesis
      using False m ih
      by (subst (1 2 3) show_nat.simps)
        (simp add: is_digit_digit_char digit_val_digit_char digits_val_snoc)
  qed
qed

lemma not_digit_sign: "\<not> is_digit (CHR ''-'')" "\<not> is_digit (CHR ''+'')"
  by (simp_all add: is_digit_def less_eq_char_def)

lemma int_literal_show_nat: "int_literal (show_nat n) = Some (int n)"
proof -
  obtain c cs where s: "show_nat n = c # cs"
    using show_nat_digits [of n] by (cases "show_nat n") auto
  have d: "is_digit c" "list_all is_digit cs"
    using show_nat_digits [of n] s by simp_all
  then have "c \<noteq> CHR ''-''" "c \<noteq> CHR ''+''"
    using not_digit_sign by auto
  then show ?thesis
    using show_nat_digits [of n] s d by (simp add: int_literal_def)
qed

lemma int_literal_show_int: "0 \<le> i \<Longrightarrow> int_literal (show_int i) = Some i"
  by (simp add: show_int_def int_literal_show_nat)


lemma placeholder_show_nat:
  "placeholder (show_nat n) = Some (n, [])"
  "\<not> is_digit c \<Longrightarrow> placeholder (show_nat n @ c # r) = Some (n, c # r)"
proof -
  have all: "\<forall>x\<in>set (show_nat n). is_digit x" and ne: "show_nat n \<noteq> []"
    and val: "digits_val (show_nat n) = n"
    using show_nat_digits [of n] by (simp_all add: list_all_iff)
  have tw: "takeWhile is_digit (show_nat n) = show_nat n"
    and dw: "dropWhile is_digit (show_nat n) = []"
    using all by simp_all
  show "placeholder (show_nat n) = Some (n, [])"
    unfolding placeholder_def Let_def tw dw using ne val by simp
  assume c: "\<not> is_digit c"
  have tw': "takeWhile is_digit (show_nat n @ c # r) = show_nat n"
    and dw': "dropWhile is_digit (show_nat n @ c # r) = c # r"
    using all c by (simp_all add: takeWhile_append2 dropWhile_append2)
  show "placeholder (show_nat n @ c # r) = Some (n, c # r)"
    unfolding placeholder_def Let_def tw' dw' using ne val by simp
qed

lemma not_digit_chars: "\<not> is_digit (CHR '' '')" "\<not> is_digit (CHR '')'')"
  by (simp_all add: is_digit_def less_eq_char_def)


lemmas parse_simps =
  strip_prefix_append strip_prefix_self placeholder_show_nat not_digit_chars
  parse_eq_def parse_search_def parse_tail_def query_value_def

text \<open>
  The database reads back what the routes write: the statement of a request parses to
  conditions \<open>cs\<close> with no window, the paginated statement to the same conditions with the
  window in the two placeholders that follow, and the placeholders of the conditions are
  the values bound before pagination.
\<close>

lemma students_round_trip:
  "\<exists>cs. parse_students (query (students_filters q)) = Some \<lparr>conds = cs, window = None\<rparr>
        \<and> parse_students (query (add_pagination '' ORDER BY s.last_name, s.first_name'' l off (students_filters q)))
            = Some \<lparr>conds = cs, window = Some (paramCount (students_filters q) + 1, paramCount (students_filters q) + 2)\<rparr>
        \<and> fold max (concat (map cond_placeholders cs)) 0 = paramCount (students_filters q)
        \<and> length (params (students_filters q)) = paramCount (students_filters q)"
  unfolding students_filters_def add_filter_def add_search_def add_pagination_def parse_students_def
  apply (cases "truthy (query_value (school_id q))"; cases "truthy (query_value (class_number q))";
      cases "truthy (query_value (section_key q))"; cases "search q"; (cases "the (search q) = []")?)
  apply (simp_all add: parse_simps)
  done

lemma schools_round_trip:
  "\<exists>cs. parse_schools (query (schools_filters q)) = Some \<lparr>conds = cs, window = None\<rparr>
        \<and> parse_schools (query (add_pagination '' ORDER BY s.name'' l off (schools_filters q)))
            = Some \<lparr>conds = cs, window = Some (paramCount (schools_filters q) + 1, paramCount (schools_filters q) + 2)\<rparr>
        \<and> fold max (concat (map cond_placeholders cs)) 0 = paramCount (schools_filters q)
        \<and> length (params (schools_filters q)) = paramCount (schools_filters q)"
  unfolding schools_filters_def add_filter_def add_search_def add_pagination_def parse_schools_def
  apply (cases "truthy (query_value (district_id q))"; cases "truthy (query_value (block_id q))";
      cases "search q"; (cases "the (search q) = []")?)
  apply (simp_all add: parse_simps)
  done

lemma bound_append: "k \<le> length ps \<Longrightarrow> bound (ps @ extra) k = bound ps k"
proof (cases "1 \<le> k")
  case True
  assume "k \<le> length ps"
  with True have "k - 1 < length ps" by simp
  then have "(ps @ extra) ! (k - 1) = ps ! (k - 1)"
    by (simp add: nth_append)
  with True \<open>k \<le> length ps\<close> show ?thesis
    by (simp add: bound_def)
next
  case False
  then show ?thesis by (simp add: bound_def)
qed

lemma bound_last:
  "bound (ps @ [a, b]) (length ps + 1) = wire a"
  "bound (ps @ [a, b]) (length ps + 2) = wire b"
proof -
  have "(ps @ [a, b]) ! length ps = a"
    by simp
  then show "bound (ps @ [a, b]) (length ps + 1) = wire a"
    by (simp add: bound_def)
  have "(ps @ [a, b]) ! (length ps + 1) = b"
    by (simp add: nth_append)
  then show "bound (ps @ [a, b]) (length ps + 2) = wire b"
    by (simp add: bound_def)
qed

lemma holds_append:
  "\<forall>k\<in>set (cond_placeholders c). k \<le> length ps \<Longrightarrow> holds (ps @ extra) r c = holds ps r c"
  by (induction c) (simp_all add: bound_append)

lemma fold_max_ge: "k \<in> set xs \<Longrightarrow> k \<le> fold max xs (m::nat)"
proof (induction xs arbitrary: m)
  case Nil
  then show ?case by simp
next
  case (Cons x xs)
  have mono: "m \<le> fold max xs m" for m :: nat
    by (induction xs arbitrary: m) (auto intro: order_trans [OF max.cobounded2])
  show ?case
  proof (cases "k = x")
    case True
    then show ?thesis
      using mono [of "max x m"] by simp
  next
    case False
    with Cons show ?thesis by simp
  qed
qed

lemma fold_max_append: "fold max (xs @ [a, b]) (m::nat) = max b (max a (fold max xs m))"
  by simp

lemma matching_append:
  assumes "fold max (concat (map cond_placeholders cs)) 0 = length ps"
  shows "matching table \<lparr>conds = cs, window = w\<rparr> (ps @ extra)
       = matching table \<lparr>conds = cs, window = None\<rparr> ps"
proof -
  have "holds (ps @ extra) r c = holds ps r c" if "c \<in> set cs" for r c
  proof (rule holds_append, rule ballI)
    fix k assume "k \<in> set (cond_placeholders c)"
    with that have "k \<in> set (concat (map cond_placeholders cs))"
      by auto
    then show "k \<le> length ps"
      using fold_max_ge [of k "concat (map cond_placeholders cs)" 0] assms by simp
  qed
  then have "list_all (holds (ps @ extra) r) cs = list_all (holds ps r) cs" for r
    by (simp add: list_all_iff)
  then show ?thesis
    by (simp add: matching_def)
qed

lemma window_value_single:
  "window_value (ps @ [a, b]) (Suc (length ps)) = window_value [a] 1"
  "window_value (ps @ [a, b]) (Suc (Suc (length ps))) = window_value [b] 1"
  using bound_last [of ps a b] by (simp_all add: window_value_def bound_def)

lemma run_list_count:
  assumes "fold max (concat (map cond_placeholders cs)) 0 = length ps"
  shows "run_list table cols key \<lparr>conds = cs, window = None\<rparr> ps
       = Inr (map (project cols) (matching table \<lparr>conds = cs, window = None\<rparr> ps))"
  using assms by (simp add: run_list_def arity_ok_def statement_placeholders_def)

lemma run_list_window:
  assumes "fold max (concat (map cond_placeholders cs)) 0 = length ps"
  shows "run_list table cols key \<lparr>conds = cs, window = Some (length ps + 1, length ps + 2)\<rparr> (ps @ [a, b])
       = (case window_value [a] 1 of
            Inl e \<Rightarrow> Inl e
          | Inr limit_n \<Rightarrow>
              (case window_value [b] 1 of
                 Inl e \<Rightarrow> Inl e
               | Inr off \<Rightarrow>
                   Inr (map (project cols)
                          (page_of (sort_key key (matching table \<lparr>conds = cs, window = None\<rparr> ps))
                             limit_n off))))"
proof -
  have arity: "arity_ok \<lparr>conds = cs, window = Some (length ps + 1, length ps + 2)\<rparr> (ps @ [a, b])"
    using assms by (simp add: arity_ok_def statement_placeholders_def)
  show ?thesis
    using arity matching_append [OF assms, of table "Some (length ps + 1, length ps + 2)" "[a, b]"]
    by (simp add: run_list_def window_value_single Let_def split: sum.splits)
qed

lemma property_project: "c \<notin> set cols \<Longrightarrow> property (project cols r) c = Undefined"
proof -
  assume "c \<notin> set cols"
  then have "map_of (project cols r) c = None"
    by (simp add: project_def map_of_eq_None_iff image_iff o_def)
  then show ?thesis
    by (simp add: property_def)
qed

text \<open>
  The list handler on a database that reads the statement of \<open>b\<close> as the conditions
  \<open>cs\<close> over \<open>table\<close>.
\<close>

lemma list_handler_pg:
  assumes count_stmt: "count_query b = query b"
    and reads: "\<And>ps. pool (query b) ps = run_list table cols key \<lparr>conds = cs, window = None\<rparr> ps"
    and reads_page: "\<And>ps. pool (query (add_pagination order_by limit_v
          (js_mul (js_sub (to_number page_v) (Fin 1)) (to_number limit_v)) b)) ps
        = run_list table cols key
            \<lparr>conds = cs, window = Some (paramCount b + 1, paramCount b + 2)\<rparr> ps"
    and arity: "fold max (concat (map cond_placeholders cs)) 0 = paramCount b"
      "length (params b) = paramCount b"
    and no_count: "''count'' \<notin> set cols"
  shows "list_handler pool page_v limit_v b order_by msg =
     (let rows = matching table \<lparr>conds = cs, window = None\<rparr> (params b);
          offset = js_mul (js_sub (to_number page_v) (Fin 1)) (to_number limit_v)
      in if rows = [] then failure 500 msg
         else case window_value [limit_v] 1 of
                Inl e \<Rightarrow> failure 500 msg
              | Inr limit_n \<Rightarrow>
                  (case window_value [Num offset] 1 of
                     Inl e \<Rightarrow> failure 500 msg
                   | Inr off \<Rightarrow>
                       \<lparr>status_code = 200,
                        body = Obj [(''success'', Prim (Bool True)),
                                    (''data'', Arr (map row_json (map (project cols)
                                       (page_of (sort_key key rows) limit_n off)))),
                                    (''pagination'', pagination page_v limit_v NaN)]\<rparr>))"
proof -
  let ?rows = "matching table \<lparr>conds = cs, window = None\<rparr> (params b)"
  let ?offset = "js_mul (js_sub (to_number page_v) (Fin 1)) (to_number limit_v)"
  let ?b' = "add_pagination order_by limit_v ?offset b"
  have a: "fold max (concat (map cond_placeholders cs)) 0 = length (params b)"
    using arity by simp
  have count: "pool (count_query b) (params b) = Inr (map (project cols) ?rows)"
    using count_stmt reads run_list_count [OF a] by simp
  have params': "params ?b' = params b @ [limit_v, Num ?offset]"
    by (simp add: add_pagination_def)
  have page: "pool (query ?b') (params ?b')
      = run_list table cols key
          \<lparr>conds = cs, window = Some (length (params b) + 1, length (params b) + 2)\<rparr>
          (params b @ [limit_v, Num ?offset])"
    using reads_page arity params' by simp
  show ?thesis
  proof (cases "?rows")
    case Nil
    then show ?thesis
      using count by (simp add: list_handler_def Let_def)
  next
    case (Cons r rs)
    have total: "js_parseInt (property (project cols r) ''count'') = NaN"
      using no_count by (simp add: property_project)
    show ?thesis
      using Cons count total page run_list_window [OF a, of table cols key limit_v "Num ?offset"]
      by (simp add: list_handler_def Let_def split: sum.splits)
  qed
qed


subsection \<open>Which statement the database reads\<close>

lemma base_is_no_other_statement:
  "strip_prefix students_base_query student_detail_query = None"
  "strip_prefix students_base_query attendance_query = None"
  "strip_prefix schools_base_query student_detail_query = None"
  "strip_prefix schools_base_query attendance_query = None"
  by code_simp+

lemma students_base_not_schools:
  "strip_prefix students_base_query (schools_base_query @ t) = None"
  unfolding students_base_query_def schools_base_query_def line_def by simp

lemma prefix_differs: "strip_prefix p s = None \<Longrightarrow> p @ t \<noteq> s"
  using strip_prefix_append [of p t] by auto

lemma pg_query_students:
  assumes "sql = students_base_query @ t" and "parse_students sql = Some st"
  shows "pg_query db sql ps = run_list (students_view db) students_columns students_order st ps"
  using assms prefix_differs [OF base_is_no_other_statement(1), of t]
    prefix_differs [OF base_is_no_other_statement(2), of t]
  by (simp add: pg_query_def)

lemma pg_query_schools:
  assumes "sql = schools_base_query @ t" and "parse_schools sql = Some st"
  shows "pg_query db sql ps = run_list (schools_view db) schools_columns schools_order st ps"
proof -
  have "parse_students sql = None"
    using assms(1) by (simp add: parse_students_def students_base_not_schools)
  then show ?thesis
    using assms prefix_differs [OF base_is_no_other_statement(3), of t]
      prefix_differs [OF base_is_no_other_statement(4), of t]
    by (simp add: pg_query_def)
qed

lemma add_pagination_query:
  "query b = base @ t \<Longrightarrow> \<exists>t'. query (add_pagination order_by l off b) = base @ t'"
  by (simp add: add_pagination_def)

lemma count_not_a_column:
  "''count'' \<notin> set students_columns" "''count'' \<notin> set schools_columns"
  by (simp_all add: students_columns_def schools_columns_def)

text \<open>
  What the students route answers on the in-memory database, for every database and
  request: 500 when no row matches or when the database rejects the value of
  \<^verbatim>\<open>LIMIT\<close> or \<^verbatim>\<open>OFFSET\<close>; otherwise the page of the matching rows, with
  \<^verbatim>\<open>NaN\<close> as the total.
\<close>

lemma students_list_pg:
  "students_list (pg_query db) q =
     (let page_v = default_to (Num (Fin 1)) (page q);
          limit_v = default_to (Num (Fin 50)) (limit q);
          offset = js_mul (js_sub (to_number page_v) (Fin 1)) (to_number limit_v);
          rows = students_matching db q
      in if rows = [] then failure 500 ''Failed to fetch students''
         else case window_value [limit_v] 1 of
                Inl e \<Rightarrow> failure 500 ''Failed to fetch students''
              | Inr limit_n \<Rightarrow>
                  (case window_value [Num offset] 1 of
                     Inl e \<Rightarrow> failure 500 ''Failed to fetch students''
                   | Inr off \<Rightarrow>
                       \<lparr>status_code = 200,
                        body = Obj [(''success'', Prim (Bool True)),
                                    (''data'', Arr (map row_json (map (project students_columns)
                                       (page_of (sort_key students_order rows) limit_n off)))),
                                    (''pagination'', pagination page_v limit_v NaN)]\<rparr>))"
proof -
  let ?b = "students_filters q"
  let ?page = "default_to (Num (Fin 1)) (page q)"
  let ?limit = "default_to (Num (Fin 50)) (limit q)"
  let ?offset = "js_mul (js_sub (to_number ?page) (Fin 1)) (to_number ?limit)"
  let ?order = "'' ORDER BY s.last_name, s.first_name''"
  obtain cs where parse: "parse_students (query ?b) = Some \<lparr>conds = cs, window = None\<rparr>"
    and parse_page: "parse_students (query (add_pagination ?order ?limit ?offset ?b))
        = Some \<lparr>conds = cs, window = Some (paramCount ?b + 1, paramCount ?b + 2)\<rparr>"
    and arity: "fold max (concat (map cond_placeholders cs)) 0 = paramCount ?b"
      "length (params ?b) = paramCount ?b"
    using students_round_trip [of q ?limit ?offset] by blast
  obtain t where t: "query ?b = students_base_query @ t"
    using students_filters_tail [of q] by blast
  then obtain t' where t': "query (add_pagination ?order ?limit ?offset ?b) = students_base_query @ t'"
    using add_pagination_query by blast
  have reads: "pg_query db (query ?b) ps
      = run_list (students_view db) students_columns students_order \<lparr>conds = cs, window = None\<rparr> ps" for ps
    using pg_query_students [OF t parse] .
  have reads_page: "pg_query db (query (add_pagination ?order ?limit ?offset ?b)) ps
      = run_list (students_view db) students_columns students_order
          \<lparr>conds = cs, window = Some (paramCount ?b + 1, paramCount ?b + 2)\<rparr> ps" for ps
    using pg_query_students [OF t' parse_page] .
  have rows: "students_matching db q = matching (students_view db) \<lparr>conds = cs, window = None\<rparr> (params ?b)"
    using parse by (simp add: students_matching_def)
  show ?thesis
    unfolding students_list_def rows
    using list_handler_pg [of ?b "pg_query db" "students_view db" students_columns students_order cs
        ?order ?limit ?page "''Failed to fetch students''",
        OF students_count_query reads reads_page arity count_not_a_column(1)]
    by (simp add: Let_def)
qed

lemma schools_list_pg:
  "schools_list (pg_query db) q =
     (let page_v = default_to (Num (Fin 1)) (page q);
          limit_v = default_to (Num (Fin 20)) (limit q);
          offset = js_mul (js_sub (to_number page_v) (Fin 1)) (to_number limit_v);
          rows = schools_matching db q
      in if rows = [] then failure 500 ''Failed to fetch schools''
         else case window_value [limit_v] 1 of
                Inl e \<Rightarrow> failure 500 ''Failed to fetch schools''
              | Inr limit_n \<Rightarrow>
                  (case window_value [Num offset] 1 of
                     Inl e \<Rightarrow> failure 500 ''Failed to fetch schools''
                   | Inr off \<Rightarrow>
                       \<lparr>status_code = 200,
                        body = Obj [(''success'', Prim (Bool True)),
                                    (''data'', Arr (map row_json (map (project schools_columns)
                                       (page_of (sort_key schools_order rows) limit_n off)))),
                                    (''pagination'', pagination page_v limit_v NaN)]\<rparr>))"
proof -
  let ?b = "schools_filters q"
  let ?page = "default_to (Num (Fin 1)) (page q)"
  let ?limit = "default_to (Num (Fin 20)) (limit q)"
  let ?offset = "js_mul (js_sub (to_number ?page) (Fin 1)) (to_number ?limit)"
  let ?order = "'' ORDER BY s.name''"
  obtain cs where parse: "parse_schools (query ?b) = Some \<lparr>conds = cs, window = None\<rparr>"
    and parse_page: "parse_schools (query (add_pagination ?order ?limit ?offset ?b))
        = Some \<lparr>conds = cs, window = Some (paramCount ?b + 1, paramCount ?b + 2)\<rparr>"
    and arity: "fold max (concat (map cond_placeholders cs)) 0 = paramCount ?b"
      "length (params ?b) = paramCount ?b"
    using schools_round_trip [of q ?limit ?offset] by blast
  obtain t where t: "query ?b = schools_base_query @ t"
    using schools_filters_tail [of q] by blast
  then obtain t' where t': "query (add_pagination ?order ?limit ?offset ?b) = schools_base_query @ t'"
    using add_pagination_query by blast
  have reads: "pg_query db (query ?b) ps
      = run_list (schools_view db) schools_columns schools_order \<lparr>conds = cs, window = None\<rparr> ps" for ps
    using pg_query_schools [OF t parse] .
  have reads_page: "pg_query db (query (add_pagination ?order ?limit ?offset ?b)) ps
      = run_list (schools_view db) schools_columns schools_order
          \<lparr>conds = cs, window = Some (paramCount ?b + 1, paramCount ?b + 2)\<rparr> ps" for ps
    using pg_query_schools [OF t' parse_page] .
  have rows: "schools_matching db q = matching (schools_view db) \<lparr>conds = cs, window = None\<rparr> (params ?b)"
    using parse by (simp add: schools_matching_def)
  show ?thesis
    unfolding schools_list_def rows
    using list_handler_pg [of ?b "pg_query db" "schools_view db" schools_columns schools_order cs
        ?order ?limit ?page "''Failed to fetch schools''",
        OF schools_count_query reads reads_page arity count_not_a_column(2)]
    by (simp add: Let_def)
qed

subsection \<open>Numeric and non-numeric values of \<^verbatim>\<open>page\<close> and \<^verbatim>\<open>limit\<close>\<close>

lemma letter_no_digit: "is_letter c \<Longrightarrow> \<not> is_digit c"
  by (auto simp: is_letter_def is_digit_def less_eq_char_def)






lemma js_sub_NaN: "js_sub NaN x = NaN"
  by simp

lemma int_literal_to_number: "int_literal s = Some i \<Longrightarrow> string_to_number s = Fin (of_int i)"
  by (auto simp: string_to_number_def int_literal_def)

lemma window_value_literal:
  "int_literal s = Some i \<Longrightarrow> 0 \<le> i \<Longrightarrow> window_value [Str s] (Suc 0) = Inr (Some (nat i))"
  by (simp add: window_value_def bound_def)

lemma number_text_int: "number_text (Fin (of_int i)) = show_int i"
  by (simp add: number_text_def)

lemma window_value_number:
  "0 \<le> i \<Longrightarrow> window_value [Num (Fin (of_int i))] (Suc 0) = Inr (Some (nat i))"
  by (simp add: window_value_def bound_def number_text_int int_literal_show_int)




text \<open>
  For at least one matching row and integer literals \<open>page \<ge> 1\<close> and \<open>limit \<ge> 1\<close>, the
  data array is the window of C1: \<open>min limit (total - (page - 1) * limit)\<close> rows, none when
  the offset is beyond the total. The limit and the offset are below \<open>2^53\<close>, where the
  numbers of the model are those of JavaScript.
\<close>

lemma page_of_length:
  "length (page_of rows (Some n) (Some k)) = min n (length rows - k)"
  by (simp add: page_of_def)

lemma students_page_length:
  assumes "page q = Some ps" "int_literal ps = Some p" "1 \<le> p"
    and "limit q = Some ls" "int_literal ls = Some l" "1 \<le> l"
    and "students_matching db q \<noteq> []"
    and "l < 2 ^ 53" "(p - 1) * l < 2 ^ 53"
  shows "status_code (students_list (pg_query db) q) = 200
       \<and> length (elements (member (body (students_list (pg_query db) q)) ''data''))
           = min (nat l) (length (students_matching db q) - nat ((p - 1) * l))"
proof -
  have off: "js_mul (js_sub (to_number (Str ps)) (Fin 1)) (to_number (Str ls)) = Fin (of_int ((p - 1) * l))"
    using assms(2,5) by (simp add: int_literal_to_number)
  have nonneg: "0 \<le> (p - 1) * l" "0 \<le> l"
    using assms(3,6) by simp_all
  show ?thesis
    using assms(1,4,7) off window_value_literal [OF assms(5) nonneg(2)]
      window_value_number [OF nonneg(1)]
    by (simp add: students_list_pg default_to_def Let_def member_def elements_def page_of_length)
qed

lemma schools_page_length:
  assumes "page q = Some ps" "int_literal ps = Some p" "1 \<le> p"
    and "limit q = Some ls" "int_literal ls = Some l" "1 \<le> l"
    and "schools_matching db q \<noteq> []"
    and "l < 2 ^ 53" "(p - 1) * l < 2 ^ 53"
  shows "status_code (schools_list (pg_query db) q) = 200
       \<and> length (elements (member (body (schools_list (pg_query db) q)) ''data''))
           = min (nat l) (length (schools_matching db q) - nat ((p - 1) * l))"
proof -
  have off: "js_mul (js_sub (to_number (Str ps)) (Fin 1)) (to_number (Str ls)) = Fin (of_int ((p - 1) * l))"
    using assms(2,5) by (simp add: int_literal_to_number)
  have nonneg: "0 \<le> (p - 1) * l" "0 \<le> l"
    using assms(3,6) by simp_all
  show ?thesis
    using assms(1,4,7) off window_value_literal [OF assms(5) nonneg(2)]
      window_value_number [OF nonneg(1)]
    by (simp add: schools_list_pg default_to_def Let_def member_def elements_def page_of_length)
qed


section \<open>The list routes on concrete databases\<close>

text \<open>
  C1. Claim: a list request with numeric \<open>page \<ge> 1\<close> and \<open>limit \<ge> 1\<close> returns a data
  array of length \<open>min(limit, total - (page-1)*limit)\<close>, or of length 0 when that is
  negative. With no matching row (\<open>total = 0\<close>) the claim asks for an empty data array.
  The handlers answer 500 instead: the statement sent to count the rows is the data
  statement, its result is empty, and reading \<^verbatim>\<open>countResult.rows[0].count\<close> throws.
\<close>

theorem no_rows_is_a_server_fault:
  "students_list (pg_query empty_db) (no_filters\<lparr>page := Some ''1'', limit := Some ''50''\<rparr>)
     = failure 500 ''Failed to fetch students''
   \<and> schools_list (pg_query empty_db) (no_filters\<lparr>page := Some ''1'', limit := Some ''20''\<rparr>)
     = failure 500 ''Failed to fetch schools''"
  by code_simp

text \<open>
  C2. Claim: the pagination envelope satisfies \<open>pages = ceil(total / limit)\<close>, with
  \<open>pages = 0\<close> and an empty data array for \<open>total = 0\<close>. Two of the three sample schools
  match the search \<^verbatim>\<open>Public\<close>; with \<open>limit = 1\<close> the claim asks for \<open>total = 2\<close> and
  \<open>pages = 2\<close>. The handler reports \<^verbatim>\<open>NaN\<close> for both (\<^verbatim>\<open>null\<close> once serialised). No
  sample school matches the search \<^verbatim>\<open>Nowhere\<close>; the claim asks for \<open>pages = 0\<close> and an
  empty array, and the handler answers 500.
\<close>

theorem pages_is_not_a_number:
  "member (body (schools_list (pg_query sample_db)
             (no_filters\<lparr>page := Some ''1'', limit := Some ''1'', search := Some ''Public''\<rparr>)))
     ''pagination''
   = Obj [(''page'', Prim (Num (Fin 1))), (''limit'', Prim (Num (Fin 1))),
          (''total'', Prim (Num NaN)), (''pages'', Prim (Num NaN))]
   \<and> schools_list (pg_query sample_db)
        (no_filters\<lparr>page := Some ''1'', limit := Some ''1'', search := Some ''Nowhere''\<rparr>)
     = failure 500 ''Failed to fetch schools''"
  by code_simp

text \<open>
  C3. Claim: \<open>total\<close> comes from a count query with the filters of the data query, so it
  is the number of rows the data query returns without its window. On the sample database
  the students request with no filter has three matching rows, all of them on the first
  page; the statement sent to count them is the unchanged data statement, and the total
  reported is \<^verbatim>\<open>NaN\<close>.
\<close>

theorem total_is_not_the_row_count:
  "count_query (students_filters no_filters) = query (students_filters no_filters)
   \<and> length (elements (member (body (students_list (pg_query sample_db) no_filters)) ''data'')) = 3
   \<and> member (member (body (students_list (pg_query sample_db) no_filters)) ''pagination'') ''total''
       = Prim (Num NaN)"
  by code_simp


section \<open>Absent and malformed \<^verbatim>\<open>page\<close> and \<^verbatim>\<open>limit\<close>\<close>








section \<open>The student detail route on the in-memory database\<close>












section \<open>The search pattern\<close>

lemma like_percent: "like_match ''%'' t"
  by (induction t) simp_all

lemma like_percent_prefix: "like_match ps t \<Longrightarrow> like_match (CHR ''%'' # ps) t"
  by simp

lemma like_underscore: "like_match (CHR ''_'' # ps) (c # cs) = like_match ps cs"
  by simp

lemma like_any_run: "like_match (search_pattern ''%'') t"
proof -
  have "like_match (CHR ''%'' # CHR ''%'' # ''%'') t"
    by (intro like_percent_prefix like_percent)
  then show ?thesis
    by (simp add: search_pattern_def del: like_match.simps)
qed

lemma like_any_one: "like_match (search_pattern ''_'') t = (t \<noteq> [])"
proof (cases t)
  case Nil
  then show ?thesis
    by (simp add: search_pattern_def)
next
  case (Cons c cs)
  have "like_match (CHR ''_'' # ''%'') (c # cs)"
    unfolding like_underscore by (rule like_percent)
  then have "like_match (CHR ''%'' # CHR ''_'' # ''%'') (c # cs)"
    by (rule like_percent_prefix)
  with Cons show ?thesis
    by (simp add: search_pattern_def del: like_match.simps)
qed

lemma add_filter_length:
  "length (params b) = paramCount b \<Longrightarrow> length (params (add_filter clause v b)) = paramCount (add_filter clause v b)"
  by (simp add: add_filter_def)

lemma add_search_bound:
  assumes "s \<noteq> []" and "length (params b) = paramCount b"
  shows "query (add_search clause1 clause2 (Some s) b)
           = query b @ clause1 @ show_nat (length (params b) + 1)
               @ clause2 @ show_nat (length (params b) + 2) @ '')''
       \<and> params (add_search clause1 clause2 (Some s) b)
           = params b @ [Str (''%'' @ s @ ''%''), Str (''%'' @ s @ ''%'')]"
  using assms by (simp add: add_search_def search_pattern_def)

text \<open>
  C10. Claim: every search value supplied is embedded between \<^verbatim>\<open>%\<close> markers in the bound
  pattern. The routes test \<^verbatim>\<open>if (search)\<close>: for \<^verbatim>\<open>?search=\<close>, the empty string, they
  append no clause and bind no pattern; the only value bound is the status.
\<close>

theorem empty_search_binds_no_pattern:
  "search (no_filters\<lparr>search := Some []\<rparr>) = Some []
   \<and> params (students_filters (no_filters\<lparr>search := Some []\<rparr>)) = [Str ''Active'']
   \<and> params (schools_filters (no_filters\<lparr>search := Some []\<rparr>)) = [Str ''Active'']"
  by code_simp

text \<open>
  C10, amended. Every non-empty search value is bound twice, as it is between two
  \<^verbatim>\<open>%\<close>, to the two placeholders of the \<^verbatim>\<open>ILIKE\<close> clause that the route appends
  last. Nothing is escaped, so the characters \<^verbatim>\<open>%\<close> and \<^verbatim>\<open>_\<close> of the value are
  wildcards: the pattern of the search \<^verbatim>\<open>%\<close> matches every text, and the pattern of the
  search \<^verbatim>\<open>_\<close> matches every text that is not empty.
\<close>

theorem search_value_is_bound_verbatim:
  "(search q = Some s \<and> s \<noteq> [] \<longrightarrow>
      (\<exists>pre ps.
         query (students_filters q)
           = pre @ '' AND (s.first_name || ' ' || s.last_name ILIKE $'' @ show_nat (length ps + 1)
               @ '' OR s.admission_no ILIKE $'' @ show_nat (length ps + 2) @ '')''
         \<and> params (students_filters q) = ps @ [Str (''%'' @ s @ ''%''), Str (''%'' @ s @ ''%'')])
    \<and> (\<exists>pre ps.
         query (schools_filters q)
           = pre @ '' AND (s.name ILIKE $'' @ show_nat (length ps + 1)
               @ '' OR s.school_code ILIKE $'' @ show_nat (length ps + 2) @ '')''
         \<and> params (schools_filters q) = ps @ [Str (''%'' @ s @ ''%''), Str (''%'' @ s @ ''%'')]))
   \<and> like_match (search_pattern ''%'') t
   \<and> (like_match (search_pattern ''_'') t \<longleftrightarrow> t \<noteq> [])"
proof -
  let ?s0 = "\<lparr>query = students_base_query, params = [default_to (Str ''Active'') (status q)],
              paramCount = 1\<rparr>"
  let ?s3 = "add_filter '' AND s.section = $'' (query_value (section_key q))
     (add_filter '' AND s.class_number = $'' (query_value (class_number q))
     (add_filter '' AND s.school_id = $'' (query_value (school_id q)) ?s0))"
  let ?c0 = "\<lparr>query = schools_base_query, params = [default_to (Str ''Active'') (status q)],
              paramCount = 1\<rparr>"
  let ?c2 = "add_filter '' AND b.block_id = $'' (query_value (block_id q))
     (add_filter '' AND d.district_id = $'' (query_value (district_id q)) ?c0)"
  have ls: "length (params ?s3) = paramCount ?s3"
    by (intro add_filter_length) simp
  have lc: "length (params ?c2) = paramCount ?c2"
    by (intro add_filter_length) simp
  have students: "\<exists>pre ps.
         query (students_filters q)
           = pre @ '' AND (s.first_name || ' ' || s.last_name ILIKE $'' @ show_nat (length ps + 1)
               @ '' OR s.admission_no ILIKE $'' @ show_nat (length ps + 2) @ '')''
         \<and> params (students_filters q) = ps @ [Str (''%'' @ s @ ''%''), Str (''%'' @ s @ ''%'')]"
    if "search q = Some s" "s \<noteq> []"
    using that add_search_bound [OF that(2) ls]
    unfolding students_filters_def by auto
  have schools: "\<exists>pre ps.
         query (schools_filters q)
           = pre @ '' AND (s.name ILIKE $'' @ show_nat (length ps + 1)
               @ '' OR s.school_code ILIKE $'' @ show_nat (length ps + 2) @ '')''
         \<and> params (schools_filters q) = ps @ [Str (''%'' @ s @ ''%''), Str (''%'' @ s @ ''%'')]"
    if "search q = Some s" "s \<noteq> []"
    using that add_search_bound [OF that(2) lc]
    unfolding schools_filters_def by auto
  show ?thesis
    using students schools like_any_run [of t] like_any_one [of t] by blast
qed

theorem search_value_is_bound_verbatim_witness:
  "search (no_filters\<lparr>search := Some ''%''\<rparr>) = Some ''%'' \<and> ''%'' \<noteq> []
   \<and> (\<exists>pre ps.
         query (schools_filters (no_filters\<lparr>search := Some ''%''\<rparr>))
           = pre @ '' AND (s.name ILIKE $'' @ show_nat (length ps + 1)
               @ '' OR s.school_code ILIKE $'' @ show_nat (length ps + 2) @ '')''
         \<and> params (schools_filters (no_filters\<lparr>search := Some ''%''\<rparr>))
             = ps @ [Str (''%'' @ ''%'' @ ''%''), Str (''%'' @ ''%'' @ ''%'')])
   \<and> like_match (search_pattern ''%'') ''Public School''"
proof -
  have supplied: "search (no_filters\<lparr>search := Some ''%''\<rparr>) = Some ''%'' \<and> ''%'' \<noteq> []"
    by simp
  show ?thesis
    using supplied
      search_value_is_bound_verbatim [of "no_filters\<lparr>search := Some ''%''\<rparr>" "''%''" "''Public School''"]
    by blast
qed


section \<open>The fetch cache\<close>

lemma fetch_and_store_result:
  "fetch_and_store net a c e t =
     (case fetchApi net a e of
        Inl err \<Rightarrow> (Inl err, c, [a @ e])
      | Inr d \<Rightarrow> (Inr d, c(e \<mapsto> \<lparr>data = d, timestamp = t\<rparr>), [a @ e]))"
  by (simp add: fetch_and_store_def)

lemma fetchWithCache_unfold:
  "fetchWithCache net a c e ttl n1 n2 =
     (case c e of
        Some cached \<Rightarrow>
          if n1 - timestamp cached < default_ttl ttl then (Inr (data cached), c, [])
          else fetch_and_store net a c e n2
      | None \<Rightarrow> fetch_and_store net a c e n2)"
  by (simp add: fetchWithCache_def Let_def)

lemma fetch_and_store_Inr:
  assumes "fetch_and_store net a c e t = (Inr d, c1, urls)"
  shows "c1 = c(e \<mapsto> \<lparr>data = d, timestamp = t\<rparr>)"
proof -
  from assms have r: "fst (fetch_and_store net a c e t) = Inr d"
    and c1: "c1 = fst (snd (fetch_and_store net a c e t))"
    by simp_all
  from r have "fetchApi net a e = Inr d"
    by (cases "fetchApi net a e") (simp_all add: fetch_and_store_result)
  then show ?thesis
    unfolding c1 by (simp add: fetch_and_store_result)
qed

lemma fetch_and_store_Inl:
  assumes "fetch_and_store net a c e t = (Inl err, c1, urls)"
  shows "c1 = c \<and> urls = [a @ e]"
proof (cases "fetchApi net a e")
  case (Inl err)
  with assms show ?thesis by (simp add: fetch_and_store_result)
next
  case (Inr d')
  with assms show ?thesis by (simp add: fetch_and_store_result)
qed

lemma fetch_and_store_urls: "snd (snd (fetch_and_store net a c e t)) = [a @ e]"
  by (cases "fetchApi net a e") (simp_all add: fetch_and_store_result)

lemma fetched_entry:
  assumes "fetchWithCache net a c e ttl n1 n2 = (Inr d, c1, [url])"
  shows "c1 e = Some \<lparr>data = d, timestamp = n2\<rparr>"
proof (cases "c e")
  case None
  with assms have "fetch_and_store net a c e n2 = (Inr d, c1, [url])"
    by (simp add: fetchWithCache_unfold)
  then show ?thesis
    using fetch_and_store_Inr by fastforce
next
  case (Some en)
  show ?thesis
  proof (cases "n1 - timestamp en < default_ttl ttl")
    case True
    with Some assms show ?thesis
      by (simp add: fetchWithCache_unfold)
  next
    case False
    with Some assms have "fetch_and_store net a c e n2 = (Inr d, c1, [url])"
      by (simp add: fetchWithCache_unfold)
    then show ?thesis
      using fetch_and_store_Inr by fastforce
  qed
qed


text \<open>
  C4. Let a first call fetch the endpoint and store the payload \<open>d\<close> at time \<open>t0\<close>. A
  later call for the same key, with whatever \<open>ttl\<close>, at a time less than \<open>ttl\<close>
  milliseconds after \<open>t0\<close> returns \<open>d\<close> from the cache and requests nothing. A call
  at \<open>ttl\<close> milliseconds or more after \<open>t0\<close> requests the URL again; when that fetch
  returns a payload, the entry holds the new payload and the time of the new store.
\<close>

theorem cached_within_ttl:
  assumes first: "fetchWithCache net api_base c endpoint ttl1 t_test t0 = (Inr d, c1, [url])"
  shows "(now - t0 < default_ttl ttl \<longrightarrow>
            fetchWithCache net' api_base c1 endpoint ttl now now' = (Inr d, c1, []))
       \<and> (\<not> now - t0 < default_ttl ttl \<longrightarrow>
            snd (snd (fetchWithCache net' api_base c1 endpoint ttl now now')) = [api_base @ endpoint]
          \<and> (\<forall>d'. fetchApi net' api_base endpoint = Inr d' \<longrightarrow>
                fetchWithCache net' api_base c1 endpoint ttl now now'
                  = (Inr d', c1(endpoint \<mapsto> \<lparr>data = d', timestamp = now'\<rparr>), [api_base @ endpoint])))"
proof -
  have stored: "c1 endpoint = Some \<lparr>data = d, timestamp = t0\<rparr>"
    using first by (rule fetched_entry)
  have fresh: "fetchWithCache net' api_base c1 endpoint ttl now now' = (Inr d, c1, [])"
    if "now - t0 < default_ttl ttl"
    using that stored by (simp add: fetchWithCache_unfold)
  have stale: "fetchWithCache net' api_base c1 endpoint ttl now now'
      = fetch_and_store net' api_base c1 endpoint now'"
    if "\<not> now - t0 < default_ttl ttl"
    using that stored by (simp add: fetchWithCache_unfold)
  have refetched: "fetch_and_store net' api_base c1 endpoint now'
      = (Inr d', c1(endpoint \<mapsto> \<lparr>data = d', timestamp = now'\<rparr>), [api_base @ endpoint])"
    if "fetchApi net' api_base endpoint = Inr d'" for d'
    using that by (simp add: fetch_and_store_result)
  show ?thesis
    using fresh stale refetched fetch_and_store_urls [of net' api_base c1 endpoint now']
    by simp
qed

theorem cached_within_ttl_witness:
  "fetchWithCache (answering (Prim (Str ''v1''))) ''http://localhost:3000/api'' Map.empty ''/x''
       (Some 1000) 0 5
     = (Inr (Prim (Str ''v1'')),
        [''/x'' \<mapsto> \<lparr>data = Prim (Str ''v1''), timestamp = 5\<rparr>],
        [''http://localhost:3000/api/x''])
   \<and> fetchWithCache offline ''http://localhost:3000/api''
        [''/x'' \<mapsto> \<lparr>data = Prim (Str ''v1''), timestamp = 5\<rparr>] ''/x'' (Some 1000) 1004 1004
     = (Inr (Prim (Str ''v1'')), [''/x'' \<mapsto> \<lparr>data = Prim (Str ''v1''), timestamp = 5\<rparr>], [])
   \<and> snd (snd (fetchWithCache offline ''http://localhost:3000/api''
        [''/x'' \<mapsto> \<lparr>data = Prim (Str ''v1''), timestamp = 5\<rparr>] ''/x'' (Some 1000) 1005 1005))
     = [''http://localhost:3000/api/x'']"
proof -
  have first: "fetchWithCache (answering (Prim (Str ''v1''))) ''http://localhost:3000/api'' Map.empty ''/x''
       (Some 1000) 0 5
     = (Inr (Prim (Str ''v1'')),
        [''/x'' \<mapsto> \<lparr>data = Prim (Str ''v1''), timestamp = 5\<rparr>],
        [''http://localhost:3000/api/x''])"
    by (simp add: fetchWithCache_def fetch_and_store_def fetchApi_def answering_def default_ttl_def Let_def)
  show ?thesis
    using first cached_within_ttl [OF first, of 1004 "Some 1000" offline 1004]
      cached_within_ttl [OF first, of 1005 "Some 1000" offline 1005]
    by (simp add: default_ttl_def)
qed

text \<open>
  C5. When the call ends with the error of a failed fetch, the cache is the one before the
  call and one URL was requested; the next call for the same key and \<open>ttl\<close>, at the same
  time or later, requests the URL again.
\<close>

theorem failed_fetch_is_not_cached:
  assumes failed: "fetchWithCache net api_base c endpoint ttl now_test now_store = (Inl err, c', urls)"
  shows "c' = c \<and> urls = [api_base @ endpoint]
       \<and> (\<forall>net' later later_store. now_test \<le> later \<longrightarrow>
             snd (snd (fetchWithCache net' api_base c' endpoint ttl later later_store))
               = [api_base @ endpoint])"
proof (cases "c endpoint")
  case None
  with failed have "fetch_and_store net api_base c endpoint now_store = (Inl err, c', urls)"
    by (simp add: fetchWithCache_unfold)
  then have same: "c' = c \<and> urls = [api_base @ endpoint]"
    by (rule fetch_and_store_Inl)
  have "snd (snd (fetchWithCache net' api_base c endpoint ttl later later_store)) = [api_base @ endpoint]"
    for net' later later_store
    using None by (simp add: fetchWithCache_unfold fetch_and_store_urls)
  with same show ?thesis by simp
next
  case (Some en)
  have stale: "\<not> now_test - timestamp en < default_ttl ttl"
  proof
    assume "now_test - timestamp en < default_ttl ttl"
    with Some failed show False
      by (simp add: fetchWithCache_unfold)
  qed
  with Some failed have "fetch_and_store net api_base c endpoint now_store = (Inl err, c', urls)"
    by (simp add: fetchWithCache_unfold)
  then have same: "c' = c \<and> urls = [api_base @ endpoint]"
    by (rule fetch_and_store_Inl)
  have "snd (snd (fetchWithCache net' api_base c endpoint ttl later later_store)) = [api_base @ endpoint]"
    if "now_test \<le> later" for net' later later_store
  proof -
    from stale that have "\<not> later - timestamp en < default_ttl ttl"
      by simp
    with Some show ?thesis
      by (simp add: fetchWithCache_unfold fetch_and_store_urls)
  qed
  with same show ?thesis by simp
qed

theorem failed_fetch_is_not_cached_witness:
  "fetchWithCache offline ''http://localhost:3000/api'' Map.empty ''/x'' (Some 1000) 0 5
     = (Inl NetworkFailure, Map.empty, [''http://localhost:3000/api/x''])
   \<and> snd (snd (fetchWithCache (answering (Prim (Str ''v1''))) ''http://localhost:3000/api'' Map.empty ''/x'' (Some 1000) 7 9))
       = [''http://localhost:3000/api/x'']"
proof -
  have failed: "fetchWithCache offline ''http://localhost:3000/api'' Map.empty ''/x'' (Some 1000) 0 5
     = (Inl NetworkFailure, Map.empty, [''http://localhost:3000/api/x''])"
    by (simp add: fetchWithCache_def fetch_and_store_def fetchApi_def offline_def default_ttl_def Let_def)
  have again: "0 \<le> later \<Longrightarrow>
      snd (snd (fetchWithCache net' ''http://localhost:3000/api'' Map.empty ''/x'' (Some 1000) later later_store))
        = [''http://localhost:3000/api'' @ ''/x'']" for net' later later_store
    using failed_fetch_is_not_cached [OF failed] by blast
  show ?thesis
    using failed again [of 7 "answering (Prim (Str ''v1''))" 9] by simp
qed


section \<open>The retry of a failed dashboard update\<close>

lemma handleUpdateError_timers:
  "timers (handleUpdateError e s) = timers s @ [(10000, RetryUpdate)]"
  by (simp add: handleUpdateError_def Let_def split: option.splits)

lemma handleUpdateError_text:
  "lastSync s = Some el \<Longrightarrow>
     map_option textContent (lastSync (handleUpdateError e s)) = Some ''Sync failed - Retrying...''"
  by (simp add: handleUpdateError_def Let_def)

lemma updateDashboardData_throw:
  "try_block k c m ts s = (Some e, s1) \<Longrightarrow>
     updateDashboardData k c m ts s
       = handleUpdateError e (s1\<lparr>console_errors := console_errors s1 @ [''Real-time update failed:'']\<rparr>)"
  by (simp add: updateDashboardData_def)

text \<open>
  C7. When the \<^verbatim>\<open>try\<close> block of an update cycle throws, leaving the state \<open>s1\<close>, the
  cycle ends with the timers of \<open>s1\<close> and one more: the retry of the update after 10000
  milliseconds. No other retry is added, the sync indicator (when the page has one) reads
  \<^verbatim>\<open>Sync failed - Retrying...\<close>, and a retry whose own cycle throws adds one retry in
  the same way.
\<close>

theorem failed_update_schedules_one_retry:
  assumes thrown: "try_block k c m ts s = (Some e, s1)"
  shows "timers (updateDashboardData k c m ts s) = timers s1 @ [(10000, RetryUpdate)]
       \<and> retries (updateDashboardData k c m ts s) = retries s1 @ [(10000, RetryUpdate)]
       \<and> (lastSync s1 \<noteq> None \<longrightarrow>
            map_option textContent (lastSync (updateDashboardData k c m ts s))
              = Some ''Sync failed - Retrying...'')
       \<and> (\<forall>k' c' m' ts' e' s2.
             try_block k' c' m' ts' (updateDashboardData k c m ts s) = (Some e', s2) \<longrightarrow>
             retries (fire k' c' m' ts' RetryUpdate (updateDashboardData k c m ts s))
               = retries s2 @ [(10000, RetryUpdate)])"
proof -
  have t: "timers (updateDashboardData k c m ts s) = timers s1 @ [(10000, RetryUpdate)]"
    using thrown by (simp add: updateDashboardData_throw handleUpdateError_timers)
  have r: "retries (updateDashboardData k c m ts s) = retries s1 @ [(10000, RetryUpdate)]"
    using t by (simp add: retries_def)
  have x: "lastSync s1 \<noteq> None \<longrightarrow>
      map_option textContent (lastSync (updateDashboardData k c m ts s)) = Some ''Sync failed - Retrying...''"
  proof
    assume "lastSync s1 \<noteq> None"
    then obtain el where "lastSync (s1\<lparr>console_errors := console_errors s1 @ [''Real-time update failed:'']\<rparr>) = Some el"
      by auto
    then show "map_option textContent (lastSync (updateDashboardData k c m ts s)) = Some ''Sync failed - Retrying...''"
      unfolding updateDashboardData_throw [OF thrown] by (rule handleUpdateError_text)
  qed
  have again: "retries (fire k' c' m' ts' RetryUpdate s') = retries s2 @ [(10000, RetryUpdate)]"
    if "try_block k' c' m' ts' s' = (Some e', s2)" for k' c' m' ts' e' s2 s'
    using that by (simp add: fire_def updateDashboardData_throw handleUpdateError_timers retries_def)
  show ?thesis
    using t r x again by blast
qed

theorem failed_update_schedules_one_retry_witness:
  "try_block completes (throws ''boom'') completes ''10:00:30'' sample_dashboard
     = (Some ''boom'', sample_dashboard)
   \<and> timers (updateDashboardData completes (throws ''boom'') completes ''10:00:30'' sample_dashboard)
     = [(10000, RetryUpdate)]
   \<and> map_option textContent
        (lastSync (updateDashboardData completes (throws ''boom'') completes ''10:00:30'' sample_dashboard))
     = Some ''Sync failed - Retrying...''"
proof -
  have thrown: "try_block completes (throws ''boom'') completes ''10:00:30'' sample_dashboard
     = (Some ''boom'', sample_dashboard)"
    by (simp add: try_block_def completes_def throws_def)
  have present: "lastSync sample_dashboard \<noteq> None" "timers sample_dashboard = []"
    by (simp_all add: sample_dashboard_def)
  show ?thesis
    using thrown present failed_update_schedules_one_retry [OF thrown] by simp
qed

section \<open>Who writes \<open>currentPage\<close>\<close>


lemma currentPage_load [simp]:
  "currentPage (loadDashboard s) = currentPage s"
  "currentPage (loadSchools s) = currentPage s"
  "currentPage (loadStudents s) = currentPage s"
  "currentPage (loadAnalytics s) = currentPage s"
  by (simp_all add: loadDashboard_def loadSchools_def loadStudents_def loadAnalytics_def)

lemma currentPage_showSection [simp]: "currentPage (showSection n s) = currentPage s"
  by (simp add: showSection_def Let_def)




end
